theory Spec2Isabelle
  imports Complex_Main "HOL-Library.Char_ord" "HOL-Library.List_Lexorder"
begin

section \<open>Python values\<close>

text \<open>
  The script \<^verbatim>\<open>scripts/update_data.py\<close> works on parsed JSON. A Python \<^verbatim>\<open>str\<close> is a
  \<^typ>\<open>string\<close> (characters are code points below 256); a Python \<^verbatim>\<open>float\<close> is an IEEE
  double, kept here as the rational it denotes or as one of the three special values
  (the sign of zero is not kept: \<^verbatim>\<open>0.0 == -0.0\<close> in Python). A JSON object is the list of
  its items in iteration order; its keys are distinct in every parsed document.

  Python compares the values of two \<^verbatim>\<open>dict\<close>s by \<^verbatim>\<open>x is y or x == y\<close>. For two floats that
  are not NaN this is the equality of their values. A NaN is equal to nothing, so for NaN
  it is the identity of the two objects, and a NaN carries the name of its object:
  \<^item> in memory, the one object that the \<^verbatim>\<open>json\<close> decoder returns for every literal \<^verbatim>\<open>NaN\<close> it
    reads (the file and the response are decoded by the same module), or the object made
    by one call of \<^verbatim>\<open>float\<close> on a string, named by the number of the extraction in the run
    and the date of the entry;
  \<^item> in a JSON document, which is text, there is no identity.
  With these names, the equality of two float objects here is \<^verbatim>\<open>x is y or x == y\<close>, and
  the equality of two series is the comparison of two \<^verbatim>\<open>dict\<close>s.
\<close>

datatype 'a pyfloat = Finite rat | PosInf | NegInf | NaN 'a

datatype nan_obj = Decoder_NaN | Made nat string

type_synonym json_float = "unit pyfloat"

type_synonym float_obj = "nan_obj pyfloat"

datatype json =
    JNull
  | JBool bool
  | JInt int
  | JFloat json_float
  | JStr string
  | JArr "json list"
  | JObj "(string \<times> json) list"

type_synonym response = "(string \<times> json) list"

type_synonym series = "string \<rightharpoonup> float_obj"

text \<open>
  The text of a \<^verbatim>\<open>RuntimeError\<close> raised by the script, with the interpolated values as
  arguments instead of the formatted message.
\<close>

datatype runtime_msg =
    Missing_config_file
  | Missing_api_key
  | No_tickers_found
  | AV_error string json
  | AV_throttled string json
  | AV_unexpected string "string list"

datatype exn =
    RuntimeError runtime_msg
  | KeyError string
  | AttributeError
  | TypeError
  | ValueError
  | OverflowError
  | RequestException string

subsection \<open>The builtin \<^verbatim>\<open>float\<close>\<close>

function bit_length :: "int \<Rightarrow> int" where
  \<comment> \<open>\<^verbatim>\<open>int.bit_length\<close> of a non-negative integer\<close>
  "bit_length n = (if n \<le> 0 then 0 else 1 + bit_length (n div 2))"
  by pat_completeness auto
termination
  by (relation "measure nat") auto

declare bit_length.simps [simp del]

definition pow2 :: "int \<Rightarrow> rat" where
  "pow2 e = (if 0 \<le> e then 2 ^ nat e else 1 / 2 ^ nat (- e))"

definition pow10 :: "int \<Rightarrow> rat" where
  "pow10 e = (if 0 \<le> e then 10 ^ nat e else 1 / 10 ^ nat (- e))"

definition ilog2 :: "rat \<Rightarrow> int" where
  \<comment> \<open>the integer part of the binary logarithm of a positive rational\<close>
  "ilog2 a =
     (let (n, d) = quotient_of a;
          e0 = bit_length n - bit_length d
      in if pow2 e0 \<le> a then e0 else e0 - 1)"

definition round_half_even :: "rat \<Rightarrow> int" where
  "round_half_even x =
     (let f = \<lfloor>x\<rfloor>; r = x - of_int f
      in if r < 1 / 2 then f
         else if 1 / 2 < r then f + 1
         else if even f then f else f + 1)"

definition round_to_double :: "rat \<Rightarrow> float_obj" where
  \<comment> \<open>the nearest double (53 significant bits, least exponent -1074), ties to even;
      a magnitude that rounds to \<open>2 ^ 1024\<close> or more is infinite\<close>
  "round_to_double q =
     (if q = 0 then Finite 0
      else let a = \<bar>q\<bar>;
               p = max (ilog2 a - 52) (- 1074);
               m = of_int (round_half_even (a / pow2 p)) * pow2 p
           in if 2 ^ 1024 \<le> m then (if 0 < q then PosInf else NegInf)
              else Finite (if 0 < q then m else - m))"

definition float_of_int :: "int \<Rightarrow> exn + float_obj" where
  \<comment> \<open>\<^verbatim>\<open>float(i)\<close> for an \<^verbatim>\<open>int\<close>: "int too large to convert to float"\<close>
  "float_of_int i =
     (case round_to_double (of_int i) of
        Finite q \<Rightarrow> Inr (Finite q)
      | PosInf \<Rightarrow> Inl OverflowError
      | NegInf \<Rightarrow> Inl OverflowError
      | NaN obj \<Rightarrow> Inl OverflowError)"

definition c_isspace :: "char \<Rightarrow> bool" where
  \<comment> \<open>the ASCII white space that \<^verbatim>\<open>float\<close> strips\<close>
  "c_isspace c = (c \<in> set [CHR 0x09, CHR 0x0A, CHR 0x0B, CHR 0x0C, CHR 0x0D, CHR 0x20])"

definition unicode_isspace :: "char \<Rightarrow> bool" where
  \<comment> \<open>\<^verbatim>\<open>str.isspace\<close> on the code points below 256\<close>
  "unicode_isspace c =
     (c \<in> set [CHR 0x09, CHR 0x0A, CHR 0x0B, CHR 0x0C, CHR 0x0D, CHR 0x1C, CHR 0x1D,
                CHR 0x1E, CHR 0x1F, CHR 0x20, CHR 0x85, CHR 0xA0])"

definition is_digit :: "char \<Rightarrow> bool" where
  "is_digit c = (CHR ''0'' \<le> c \<and> c \<le> CHR ''9'')"

definition to_ascii :: "char \<Rightarrow> char" where
  \<comment> \<open>before parsing, a non-ASCII space becomes a blank and any other non-ASCII
      character one that no number contains\<close>
  "to_ascii c =
     (if (of_char c :: nat) < 127 then c
      else if unicode_isspace c then CHR 0x20 else CHR ''?'')"

definition ascii_lower :: "char \<Rightarrow> char" where
  "ascii_lower c =
     (if CHR ''A'' \<le> c \<and> c \<le> CHR ''Z'' then char_of ((of_char c :: nat) + 32) else c)"

definition strip_with :: "(char \<Rightarrow> bool) \<Rightarrow> string \<Rightarrow> string" where
  "strip_with sp s = rev (dropWhile sp (rev (dropWhile sp s)))"

fun underscores_ok :: "char \<Rightarrow> string \<Rightarrow> bool" where
  \<comment> \<open>an underscore stands between two digits\<close>
  "underscores_ok prev [] = (prev \<noteq> CHR ''_'')"
| "underscores_ok prev (c # cs) =
     ((if c = CHR ''_'' then is_digit prev
       else if prev = CHR ''_'' then is_digit c else True)
      \<and> underscores_ok c cs)"

definition digits_value :: "string \<Rightarrow> int" where
  "digits_value ds = foldl (\<lambda>n c. 10 * n + ((of_char c :: int) - 48)) 0 ds"

definition split_sign :: "string \<Rightarrow> bool \<times> string" where
  "split_sign s =
     (case s of
        [] \<Rightarrow> (False, [])
      | c # cs \<Rightarrow> if c = CHR ''-'' then (True, cs)
                  else if c = CHR ''+'' then (False, cs) else (False, s))"

definition parse_exponent :: "string \<Rightarrow> int option" where
  \<comment> \<open>what follows the mantissa: nothing, or \<^verbatim>\<open>e\<close>, a sign and digits up to the end\<close>
  "parse_exponent s =
     (case s of
        [] \<Rightarrow> Some 0
      | c # cs \<Rightarrow>
          if c = CHR ''e'' \<or> c = CHR ''E'' then
            (let (neg, ds) = split_sign cs
             in if ds = [] then None
                else if list_all is_digit ds
                  then Some (if neg then - digits_value ds else digits_value ds)
                  else None)
          else None)"

definition parse_decimal :: "string \<Rightarrow> rat option" where
  "parse_decimal s =
     (let ip = takeWhile is_digit s;
          r1 = dropWhile is_digit s;
          has_point = (r1 \<noteq> [] \<and> hd r1 = CHR ''.'');
          fp = (if has_point then takeWhile is_digit (tl r1) else []);
          r2 = (if has_point then dropWhile is_digit (tl r1) else r1)
      in if ip = [] \<and> fp = [] then None
         else (case parse_exponent r2 of
                 None \<Rightarrow> None
               | Some e \<Rightarrow>
                   Some (of_int (digits_value (ip @ fp)) * pow10 (e - int (length fp)))))"

definition parse_float :: "nan_obj \<Rightarrow> string \<Rightarrow> float_obj option" where
  \<comment> \<open>a sign, then \<^verbatim>\<open>inf\<close>, \<^verbatim>\<open>infinity\<close> or \<^verbatim>\<open>nan\<close> in any case, or a decimal number;
      \<open>new\<close> names the object made when the result is NaN\<close>
  "parse_float new s =
     (let (neg, body) = split_sign s; low = map ascii_lower body
      in if low = ''inf'' \<or> low = ''infinity'' then Some (if neg then NegInf else PosInf)
         else if low = ''nan'' then Some (NaN new)
         else (case parse_decimal body of
                 None \<Rightarrow> None
               | Some q \<Rightarrow> Some (round_to_double (if neg then - q else q))))"

definition float_of_str :: "nan_obj \<Rightarrow> string \<Rightarrow> float_obj option" where
  \<comment> \<open>\<^verbatim>\<open>float(s)\<close> for a \<^verbatim>\<open>str\<close>; \<open>None\<close> is \<^verbatim>\<open>ValueError\<close>\<close>
  "float_of_str new s =
     (let t = strip_with c_isspace (map to_ascii s)
      in if CHR ''_'' \<in> set t
         then (if underscores_ok (CHR 0x00) t
               then parse_float new (filter (\<lambda>c. c \<noteq> CHR ''_'') t) else None)
         else parse_float new t)"

definition decoded :: "json_float \<Rightarrow> float_obj" where
  \<comment> \<open>the float object that the decoder made of a number of a document\<close>
  "decoded f = map_pyfloat (\<lambda>u. Decoder_NaN) f"

definition encoded :: "float_obj \<Rightarrow> json_float" where
  \<comment> \<open>the number that \<^verbatim>\<open>json.dumps\<close> writes for a float object\<close>
  "encoded f = map_pyfloat (\<lambda>obj. ()) f"

definition py_float :: "nan_obj \<Rightarrow> json \<Rightarrow> exn + float_obj" where
  \<comment> \<open>\<^verbatim>\<open>float(x)\<close> on a parsed JSON value; of a float it is the float itself, and
      \<open>new\<close> names the object made when a string gives NaN\<close>
  "py_float new x =
     (case x of
        JNull \<Rightarrow> Inl TypeError
      | JBool b \<Rightarrow> Inr (Finite (if b then 1 else 0))
      | JInt i \<Rightarrow> float_of_int i
      | JFloat f \<Rightarrow> Inr (decoded f)
      | JStr s \<Rightarrow> (case float_of_str new s of None \<Rightarrow> Inl ValueError | Some f \<Rightarrow> Inr f)
      | JArr xs \<Rightarrow> Inl TypeError
      | JObj kvs \<Rightarrow> Inl TypeError)"

section \<open>Response Extractor\<close>

definition py_get :: "json \<Rightarrow> string \<Rightarrow> exn + json" where
  \<comment> \<open>\<^verbatim>\<open>x.get(key)\<close>: \<^verbatim>\<open>None\<close> for an absent key; only a \<^verbatim>\<open>dict\<close> has the method\<close>
  "py_get x key =
     (case x of
        JObj kvs \<Rightarrow> Inr (case map_of kvs key of None \<Rightarrow> JNull | Some v \<Rightarrow> v)
      | JNull \<Rightarrow> Inl AttributeError
      | JBool b \<Rightarrow> Inl AttributeError
      | JInt i \<Rightarrow> Inl AttributeError
      | JFloat f \<Rightarrow> Inl AttributeError
      | JStr s \<Rightarrow> Inl AttributeError
      | JArr xs \<Rightarrow> Inl AttributeError)"

text \<open>
  The extraction takes, besides the arguments of the source, the number \<open>call\<close> of this
  call in the run: the float object made at the entry dated \<open>d\<close> is \<open>Made call d\<close>.
\<close>

fun extract_loop ::
  "nat \<Rightarrow> (string \<times> json) list \<Rightarrow> string \<Rightarrow> series \<Rightarrow> exn + series" where
  "extract_loop call [] earliest_date out = Inr out"
| "extract_loop call ((d, fields) # rest) earliest_date out =
     (if d < earliest_date then extract_loop call rest earliest_date out
      else case py_get fields ''5. adjusted close'' of
             Inl e \<Rightarrow> Inl e
           | Inr adj \<Rightarrow>
               if adj = JNull then extract_loop call rest earliest_date out
               else (case py_float (Made call d) adj of
                       Inr v \<Rightarrow> extract_loop call rest earliest_date (out(d \<mapsto> v))
                     | Inl e \<Rightarrow>
                         if e = ValueError then extract_loop call rest earliest_date out
                         else Inl e))"

definition extract_adjusted_close_series :: "nat \<Rightarrow> response \<Rightarrow> string \<Rightarrow> exn + series" where
  "extract_adjusted_close_series call av_json earliest_date =
     (case map_of av_json ''Time Series (Daily)'' of
        None \<Rightarrow> Inl (KeyError ''Time Series (Daily)'')
      | Some (JObj items) \<Rightarrow> extract_loop call items earliest_date Map.empty
      | Some other \<Rightarrow> Inl AttributeError)"

section \<open>Series Merger\<close>

definition or_empty :: "series \<Rightarrow> series" where
  \<comment> \<open>\<^verbatim>\<open>x or {}\<close>: an empty \<^verbatim>\<open>dict\<close> is false\<close>
  "or_empty x = (if x = Map.empty then Map.empty else x)"

definition merge_series :: "series \<Rightarrow> series \<Rightarrow> series" where
  "merge_series existing incoming =
     (let merged = or_empty existing;
          merged = merged ++ or_empty incoming
      in merged)"

section \<open>Configuration, persisted dataset and the world of a run\<close>

text \<open>
  \<^verbatim>\<open>config/predictions.json\<close> and \<^verbatim>\<open>data/prices.json\<close> are modelled at the types the
  script reads them at. A key that a document may lack is an \<open>option\<close>. An entry of the
  configured ticker list is the value of its \<^verbatim>\<open>"symbol"\<close> key, if it has one. The dataset
  as a document of the file is a \<open>unit dataset\<close>; the \<^verbatim>\<open>dict\<close> that the script holds in
  memory is a \<open>nan_obj dataset\<close>.
\<close>

record data_window =
  dw_earliest_date :: "string option"

record data_source =
  src_provider :: "string option"
  src_endpoint :: "string option"
  src_field :: "string option"

record config =
  cfg_data_window :: "data_window option"
  cfg_data_source :: "data_source option"
  cfg_tickers :: "string option list option"

record 'a dataset =
  ds_series :: "(string \<rightharpoonup> (string \<rightharpoonup> 'a pyfloat)) option"
  ds_generated_utc :: "string option"
  ds_provider :: "string option"
  ds_endpoint :: "string option"
  ds_field :: "string option"
  ds_earliest_date :: "string option"

record av_config =
  api_key :: string
  outputsize :: string

record request =
  rq_function :: string
  rq_symbol :: string
  rq_outputsize :: string
  rq_apikey :: string

text \<open>
  What a run can observe and change. The environment is read only: the configuration
  file (if it exists), the variable \<^verbatim>\<open>ALPHAVANTAGE_API_KEY\<close> (if set), the answer of the
  network to the i-th request of the run (the parsed body, or the exception of
  \<^verbatim>\<open>requests.get\<close>, \<^verbatim>\<open>raise_for_status\<close> or \<^verbatim>\<open>r.json\<close>), and the formatted UTC time read
  when the dataset is stamped. The world holds the dataset file (if it exists) and the
  trace of requests, pauses and writes made so far. Log output is not modelled.
\<close>

record env =
  config_file :: "config option"
  api_key_env :: "string option"
  http_get :: "nat \<Rightarrow> request \<Rightarrow> exn + response"
  utc_now :: string

datatype event = Request request | Sleep nat | Write "unit dataset"

record world =
  prices_file :: "unit dataset option"
  trace :: "event list"

definition map_dataset :: "('a pyfloat \<Rightarrow> 'b pyfloat) \<Rightarrow> 'a dataset \<Rightarrow> 'b dataset" where
  "map_dataset f d =
     \<lparr>ds_series =
        map_option (\<lambda>cs. map_option (\<lambda>sr. map_option f \<circ> sr) \<circ> cs) (ds_series d),
      ds_generated_utc = ds_generated_utc d, ds_provider = ds_provider d,
      ds_endpoint = ds_endpoint d, ds_field = ds_field d,
      ds_earliest_date = ds_earliest_date d\<rparr>"

definition load_json :: "unit dataset \<Rightarrow> nan_obj dataset" where
  \<comment> \<open>\<^verbatim>\<open>json.loads\<close> of the text of the file\<close>
  "load_json d = map_dataset decoded d"

definition dump_json :: "nan_obj dataset \<Rightarrow> world \<Rightarrow> world" where
  \<comment> \<open>the file becomes the text that \<^verbatim>\<open>json.dumps\<close> gives\<close>
  "dump_json obj w =
     w\<lparr>prices_file := Some (map_dataset encoded obj),
       trace := trace w @ [Write (map_dataset encoded obj)]\<rparr>"

definition sleep :: "nat \<Rightarrow> world \<Rightarrow> world" where
  "sleep secs w = w\<lparr>trace := trace w @ [Sleep secs]\<rparr>"

section \<open>Fetch Orchestrator\<close>

definition params :: "string \<Rightarrow> av_config \<Rightarrow> request" where
  "params symbol cfg =
     \<lparr>rq_function = ''TIME_SERIES_DAILY_ADJUSTED'', rq_symbol = symbol,
      rq_outputsize = outputsize cfg, rq_apikey = api_key cfg\<rparr>"

definition fetch_daily_adjusted ::
  "(request \<Rightarrow> exn + response) \<Rightarrow> string \<Rightarrow> av_config \<Rightarrow> exn + response" where
  "fetch_daily_adjusted get symbol cfg =
     (case get (params symbol cfg) of
        Inl e \<Rightarrow> Inl e
      | Inr j \<Rightarrow>
          (case map_of j ''Error Message'' of
             Some m \<Rightarrow> Inl (RuntimeError (AV_error symbol m))
           | None \<Rightarrow>
               (case map_of j ''Note'' of
                  Some n \<Rightarrow> Inl (RuntimeError (AV_throttled symbol n))
                | None \<Rightarrow>
                    if map_of j ''Time Series (Daily)'' = None
                    then Inl (RuntimeError (AV_unexpected symbol (map fst j)))
                    else Inr j)))"

record loop_state =
  current_series :: "string \<rightharpoonup> series"
  updated_any :: bool
  world :: world

definition incoming_series :: "env \<Rightarrow> av_config \<Rightarrow> string \<Rightarrow> nat \<Rightarrow> string \<Rightarrow> exn + series" where
  \<comment> \<open>lines 110 and 111: the fetch and the extraction for the i-th ticker\<close>
  "incoming_series e av_cfg earliest_date i symb =
     (case fetch_daily_adjusted (http_get e i) symb av_cfg of
        Inl x \<Rightarrow> Inl x
      | Inr av_json \<Rightarrow> extract_adjusted_close_series i av_json earliest_date)"

definition existing_series :: "loop_state \<Rightarrow> string \<Rightarrow> series" where
  \<comment> \<open>line 113: \<^verbatim>\<open>current_series.get(sym, {})\<close>\<close>
  "existing_series s symb = (case current_series s symb of None \<Rightarrow> Map.empty | Some x \<Rightarrow> x)"

definition process_ticker ::
  "env \<Rightarrow> av_config \<Rightarrow> string \<Rightarrow> nat \<Rightarrow> string \<Rightarrow> loop_state \<Rightarrow> exn \<times> world + loop_state" where
  \<comment> \<open>the body of the loop; an exception leaves with the world as it is then\<close>
  "process_ticker e av_cfg earliest_date i symb s =
     (let w = (world s)\<lparr>trace := trace (world s) @ [Request (params symb av_cfg)]\<rparr>
      in case incoming_series e av_cfg earliest_date i symb of
           Inl x \<Rightarrow> Inl (x, w)
         | Inr incoming \<Rightarrow>
             (let existing = existing_series s symb;
                  merged = merge_series existing incoming;
                  s1 = (if merged \<noteq> existing
                        then s\<lparr>current_series := (current_series s)(symb \<mapsto> merged),
                               updated_any := True\<rparr>
                        else s)
              in Inr (s1\<lparr>world := sleep 13 w\<rparr>)))"

fun ticker_loop ::
  "env \<Rightarrow> av_config \<Rightarrow> string \<Rightarrow> nat \<Rightarrow> string list \<Rightarrow> loop_state \<Rightarrow> exn \<times> world + loop_state" where
  "ticker_loop e av_cfg earliest_date i [] s = Inr s"
| "ticker_loop e av_cfg earliest_date i (symb # rest) s =
     (case process_ticker e av_cfg earliest_date i symb s of
        Inl x \<Rightarrow> Inl x
      | Inr s1 \<Rightarrow> ticker_loop e av_cfg earliest_date (Suc i) rest s1)"

section \<open>Persistence Decision and the run\<close>

fun symbols :: "string option list \<Rightarrow> exn + string list" where
  \<comment> \<open>\<^verbatim>\<open>[t["symbol"] for t in ...]\<close>\<close>
  "symbols [] = Inr []"
| "symbols (None # ts) = Inl (KeyError ''symbol'')"
| "symbols (Some symb # ts) = (case symbols ts of Inl x \<Rightarrow> Inl x | Inr syms \<Rightarrow> Inr (symb # syms))"

definition config_earliest_date :: "config \<Rightarrow> string" where
  "config_earliest_date cfg =
     (case cfg_data_window cfg of
        None \<Rightarrow> ''2025-07-01''
      | Some dw \<Rightarrow> (case dw_earliest_date dw of None \<Rightarrow> ''2025-07-01'' | Some d \<Rightarrow> d))"

definition config_tickers :: "config \<Rightarrow> exn + string list" where
  "config_tickers cfg = symbols (case cfg_tickers cfg of None \<Rightarrow> [] | Some ts \<Rightarrow> ts)"

definition source_or :: "config \<Rightarrow> (data_source \<Rightarrow> string option) \<Rightarrow> string \<Rightarrow> string" where
  \<comment> \<open>\<^verbatim>\<open>cfg.get("data_source", {}).get(key, default)\<close>\<close>
  "source_or cfg key dflt =
     (case cfg_data_source cfg of
        None \<Rightarrow> dflt
      | Some src \<Rightarrow> (case key src of None \<Rightarrow> dflt | Some v \<Rightarrow> v))"

definition env_api_key :: "env \<Rightarrow> string" where
  \<comment> \<open>\<^verbatim>\<open>os.environ.get("ALPHAVANTAGE_API_KEY", "").strip()\<close>\<close>
  "env_api_key e = strip_with unicode_isspace (case api_key_env e of None \<Rightarrow> [] | Some k \<Rightarrow> k)"

definition load_current :: "world \<Rightarrow> nan_obj dataset" where
  \<comment> \<open>line 101\<close>
  "load_current w =
     (case prices_file w of
        Some d \<Rightarrow> load_json d
      | None \<Rightarrow> \<lparr>ds_series = Some Map.empty, ds_generated_utc = None, ds_provider = None,
                  ds_endpoint = None, ds_field = None, ds_earliest_date = None\<rparr>)"

definition initial_state :: "world \<Rightarrow> loop_state" where
  "initial_state w =
     \<lparr>current_series = (case ds_series (load_current w) of None \<Rightarrow> Map.empty | Some cs \<Rightarrow> cs),
      updated_any = False, world = w\<rparr>"

definition stamp ::
  "env \<Rightarrow> config \<Rightarrow> nan_obj dataset \<Rightarrow> loop_state \<Rightarrow> nan_obj dataset" where
  \<comment> \<open>lines 127 to 132\<close>
  "stamp e cfg current s =
     current\<lparr>ds_series := Some (current_series s),
             ds_generated_utc := Some (utc_now e),
             ds_provider := Some (source_or cfg src_provider ''Alpha Vantage''),
             ds_endpoint := Some (source_or cfg src_endpoint ''TIME_SERIES_DAILY_ADJUSTED''),
             ds_field := Some (source_or cfg src_field ''5. adjusted close''),
             ds_earliest_date := Some (config_earliest_date cfg)\<rparr>"

definition run_av_config :: "env \<Rightarrow> av_config" where
  \<comment> \<open>line 104\<close>
  "run_av_config e = \<lparr>api_key = env_api_key e, outputsize = ''full''\<rparr>"

definition main :: "env \<Rightarrow> world \<Rightarrow> (exn + int) \<times> world" where
  "main e w =
     (case config_file e of
        None \<Rightarrow> (Inl (RuntimeError Missing_config_file), w)
      | Some cfg \<Rightarrow>
          if env_api_key e = [] then (Inl (RuntimeError Missing_api_key), w)
          else
            (case config_tickers cfg of
               Inl x \<Rightarrow> (Inl x, w)
             | Inr tickers \<Rightarrow>
                 if tickers = [] then (Inl (RuntimeError No_tickers_found), w)
                 else
                   (let current = load_current w;
                        av_cfg = run_av_config e
                    in case ticker_loop e av_cfg (config_earliest_date cfg) 1 tickers
                              (initial_state w) of
                         Inl (x, w1) \<Rightarrow> (Inl x, w1)
                       | Inr s \<Rightarrow>
                           (let current = stamp e cfg current s; w1 = world s
                            in if updated_any s then (Inr 0, dump_json current w1)
                               else if prices_file w1 = None
                                 then (Inr 0, dump_json current w1)
                                 else (Inr 0, w1)))))"

section \<open>Observations on a run\<close>

text \<open>
  The events a run adds to the trace, the pauses and the writes among them, and the events
  of one pass of the loop that raises nothing.
\<close>

definition run_events :: "env \<Rightarrow> world \<Rightarrow> event list" where
  "run_events e w = drop (length (trace w)) (trace (snd (main e w)))"

fun pauses :: "event list \<Rightarrow> nat list" where
  "pauses [] = []"
| "pauses (Sleep secs # evs) = secs # pauses evs"
| "pauses (Request rq # evs) = pauses evs"
| "pauses (Write d # evs) = pauses evs"

fun writes :: "event list \<Rightarrow> unit dataset list" where
  "writes [] = []"
| "writes (Write d # evs) = d # writes evs"
| "writes (Request rq # evs) = writes evs"
| "writes (Sleep secs # evs) = writes evs"

fun requests :: "event list \<Rightarrow> request list" where
  "requests [] = []"
| "requests (Request rq # evs) = rq # requests evs"
| "requests (Sleep secs # evs) = requests evs"
| "requests (Write d # evs) = requests evs"

definition ticker_events :: "av_config \<Rightarrow> string \<Rightarrow> event list" where
  "ticker_events av_cfg symb = [Request (params symb av_cfg), Sleep 13]"

definition ticker_changed ::
  "env \<Rightarrow> av_config \<Rightarrow> string \<Rightarrow> loop_state \<Rightarrow> nat \<Rightarrow> string \<Rightarrow> bool" where
  \<comment> \<open>the test of line 116 for the i-th ticker, reached in state \<open>s\<close>\<close>
  "ticker_changed e av_cfg earliest_date s i symb =
     (case incoming_series e av_cfg earliest_date i symb of
        Inl x \<Rightarrow> False
      | Inr incoming \<Rightarrow>
          merge_series (existing_series s symb) incoming \<noteq> existing_series s symb)"

text \<open>
  A field bundle on which the extraction raises nothing: a JSON object whose adjusted
  close is absent, \<^verbatim>\<open>null\<close>, or a value that \<^verbatim>\<open>float\<close> accepts or rejects with
  \<^verbatim>\<open>ValueError\<close>. Entries dated before the cutoff are never looked into.
\<close>

definition bundle_ok :: "nan_obj \<Rightarrow> json \<Rightarrow> bool" where
  "bundle_ok new bundle =
     (case py_get bundle ''5. adjusted close'' of
        Inl x \<Rightarrow> False
      | Inr adj \<Rightarrow>
          if adj = JNull then True
          else (case py_float new adj of Inr v \<Rightarrow> True | Inl x \<Rightarrow> x = ValueError))"

definition entries_ok :: "nat \<Rightarrow> string \<Rightarrow> (string \<times> json) list \<Rightarrow> bool" where
  "entries_ok call earliest_date items =
     list_all (\<lambda>(d, bundle). if d < earliest_date then True
                              else bundle_ok (Made call d) bundle) items"

section \<open>Example inputs\<close>

text \<open>
  A response with two entries that the extraction keeps and four that it skips: one dated
  before the cutoff \<^verbatim>\<open>2025-07-01\<close> (its adjusted close is never looked at), one without
  the adjusted close, one whose adjusted close is not a number, and one whose adjusted
  close is \<^verbatim>\<open>null\<close>. Then responses that the fetch rejects, and responses on which the
  extraction raises or stores infinity.
\<close>

definition example_items :: "(string \<times> json) list" where
  "example_items =
     [(''2025-07-02'', JObj [(''4. close'', JStr ''10.7''), (''5. adjusted close'', JStr ''10.5'')]),
      (''2025-07-01'', JObj [(''5. adjusted close'', JFloat (Finite 10))]),
      (''2025-06-30'', JObj [(''5. adjusted close'', JArr [])]),
      (''2025-07-03'', JObj [(''4. close'', JStr ''11.0'')]),
      (''2025-07-04'', JObj [(''5. adjusted close'', JStr ''n/a'')]),
      (''2025-07-05'', JObj [(''5. adjusted close'', JNull)])]"

definition example_response :: response where
  "example_response =
     [(''Meta Data'', JObj [(''2. Symbol'', JStr ''AAPL'')]),
      (''Time Series (Daily)'', JObj example_items)]"

definition example_series :: series where
  "example_series = [''2025-07-02'' \<mapsto> Finite (21 / 2), ''2025-07-01'' \<mapsto> Finite 10]"

definition empty_response :: response where
  "empty_response = [(''Time Series (Daily)'', JObj [])]"

definition error_response :: response where
  "error_response = [(''Error Message'', JStr ''Invalid API call.'')]"

definition throttled_response :: response where
  "throttled_response = [(''Note'', JStr ''5 calls per minute'')]"

definition unexpected_response :: response where
  "unexpected_response = [(''Information'', JStr ''premium endpoint'')]"

definition list_response :: response where
  "list_response =
     [(''Time Series (Daily)'',
       JObj [(''2025-07-01'', JObj [(''5. adjusted close'', JArr [])])])]"

definition huge_response :: response where
  "huge_response =
     [(''Time Series (Daily)'',
       JObj [(''2025-07-01'', JObj [(''5. adjusted close'', JInt (2 ^ 1024))])])]"

definition bundle_response :: response where
  "bundle_response = [(''Time Series (Daily)'', JObj [(''2025-07-01'', JStr ''n/a'')])]"

definition inf_response :: response where
  "inf_response =
     [(''Time Series (Daily)'',
       JObj [(''2025-07-01'', JObj [(''5. adjusted close'', JStr ''inf'')])])]"

definition example_config :: config where
  "example_config =
     \<lparr>cfg_data_window = None, cfg_data_source = None,
      cfg_tickers = Some [Some ''AAPL'', Some ''MSFT'', Some ''NVDA'']\<rparr>"

definition example_env :: env where
  "example_env =
     \<lparr>config_file = Some example_config, api_key_env = Some '' demo '',
      http_get = (\<lambda>i rq. if rq_symbol rq = ''AAPL'' then Inr example_response
                          else Inr empty_response),
      utc_now = ''2025-08-01 06:00:00Z''\<rparr>"

definition failing_env :: env where
  "failing_env =
     example_env\<lparr>http_get := (\<lambda>i rq. if i = 2 then Inr error_response
                                     else http_get example_env i rq)\<rparr>"

definition quiet_env :: env where
  "quiet_env = example_env\<lparr>http_get := (\<lambda>i rq. Inr empty_response)\<rparr>"

definition fresh_world :: world where
  "fresh_world = \<lparr>prices_file = None, trace = []\<rparr>"

text \<open>
  The dataset that the first run on the example inputs writes, the world after that run, and
  an environment whose configuration lists no ticker.
\<close>

definition example_series_json :: "string \<rightharpoonup> json_float" where
  "example_series_json = [''2025-07-02'' \<mapsto> Finite (21 / 2), ''2025-07-01'' \<mapsto> Finite 10]"

definition example_written :: "unit dataset" where
  "example_written =
     \<lparr>ds_series = Some [''AAPL'' \<mapsto> example_series_json],
      ds_generated_utc = Some ''2025-08-01 06:00:00Z'', ds_provider = Some ''Alpha Vantage'',
      ds_endpoint = Some ''TIME_SERIES_DAILY_ADJUSTED'', ds_field = Some ''5. adjusted close'',
      ds_earliest_date = Some ''2025-07-01''\<rparr>"

definition settled_world :: world where
  "settled_world = \<lparr>prices_file = Some example_written, trace = []\<rparr>"

text \<open>
  A dataset file that holds NaN at a date, a response whose adjusted close at that date
  is the string \<^verbatim>\<open>nan\<close>, and one where it is the literal \<^verbatim>\<open>NaN\<close>.
\<close>

definition nan_response :: response where
  "nan_response =
     [(''Time Series (Daily)'',
       JObj [(''2025-07-01'', JObj [(''5. adjusted close'', JStr ''nan'')])])]"

definition nan_literal_response :: response where
  "nan_literal_response =
     [(''Time Series (Daily)'',
       JObj [(''2025-07-01'', JObj [(''5. adjusted close'', JFloat (NaN ()))])])]"

definition nan_written :: "unit dataset" where
  "nan_written =
     example_written\<lparr>ds_series := Some [''AAPL'' \<mapsto> [''2025-07-01'' \<mapsto> NaN ()]]\<rparr>"

definition nan_world :: world where
  "nan_world = \<lparr>prices_file = Some nan_written, trace = []\<rparr>"

definition nan_env :: env where
  "nan_env =
     example_env\<lparr>http_get := (\<lambda>i rq. if rq_symbol rq = ''AAPL'' then Inr nan_response
                                     else Inr empty_response)\<rparr>"

definition nan_literal_env :: env where
  "nan_literal_env =
     example_env\<lparr>http_get := (\<lambda>i rq. if rq_symbol rq = ''AAPL'' then Inr nan_literal_response
                                     else Inr empty_response)\<rparr>"

definition no_tickers_env :: env where
  "no_tickers_env = example_env\<lparr>config_file := Some (example_config\<lparr>cfg_tickers := Some []\<rparr>)\<rparr>"

section \<open>The merger is a right-biased union\<close>

lemma or_empty_id: "or_empty x = x"
  by (simp add: or_empty_def)

lemma merge_series_map_add: "merge_series existing incoming = existing ++ incoming"
  by (simp add: merge_series_def or_empty_id)

lemma merge_series_empty: "merge_series Map.empty Map.empty = Map.empty"
  by (simp add: merge_series_def or_empty_def)

lemma singleton_map_eq: "[k \<mapsto> a] = [k \<mapsto> b] \<longleftrightarrow> a = b"
  by (auto dest: map_upd_eqD1)

lemma map_add_same: "m ++ m = m"
  by (simp add: map_add_def fun_eq_iff split: option.splits)

text \<open>
  C1. For every existing series \<open>E\<close> and incoming series \<open>I\<close>, the keys of
  \<open>merge_series E I\<close> are the keys of \<open>E\<close> together with the keys of \<open>I\<close>; at every date
  of \<open>I\<close> the merged value is the one of \<open>I\<close>, and at every date of \<open>E\<close> that \<open>I\<close> lacks it
  is the one of \<open>E\<close>. So no date that only \<open>E\<close> has is removed.
\<close>

theorem merge_series_right_biased_union:
  "dom (merge_series E I) = dom E \<union> dom I
   \<and> (\<forall>d \<in> dom I. merge_series E I d = I d)
   \<and> (\<forall>d \<in> dom E - dom I. merge_series E I d = E d)"
  by (auto simp: merge_series_map_add map_add_dom_app_simps)

theorem merge_series_right_biased_union_witness:
  "''2025-07-02'' \<in> dom [''2025-07-02'' \<mapsto> Finite 11]
   \<and> merge_series [''2025-07-01'' \<mapsto> Finite 10, ''2025-07-02'' \<mapsto> Finite 9]
        [''2025-07-02'' \<mapsto> Finite 11] ''2025-07-02'' = Some (Finite 11)
   \<and> ''2025-07-01'' \<in> dom [''2025-07-01'' \<mapsto> Finite 10, ''2025-07-02'' \<mapsto> Finite 9]
        - dom [''2025-07-02'' \<mapsto> Finite 11]
   \<and> merge_series [''2025-07-01'' \<mapsto> Finite 10, ''2025-07-02'' \<mapsto> Finite 9]
        [''2025-07-02'' \<mapsto> Finite 11] ''2025-07-01'' = Some (Finite 10)
   \<and> dom (merge_series [''2025-07-01'' \<mapsto> Finite 10, ''2025-07-02'' \<mapsto> Finite 9]
        [''2025-07-02'' \<mapsto> Finite 11]) = {''2025-07-01'', ''2025-07-02''}"
  using merge_series_right_biased_union
    [of "[''2025-07-01'' \<mapsto> Finite 10, ''2025-07-02'' \<mapsto> Finite 9]"
        "[''2025-07-02'' \<mapsto> Finite 11]"]
  by auto

text \<open>
  C5. The merge is idempotent: merging the same incoming series \<open>I\<close> a second time into
  \<open>merge_series E I\<close> gives \<open>merge_series E I\<close> again, for all series \<open>E\<close> and \<open>I\<close>.
\<close>

theorem merge_series_idempotent:
  "merge_series (merge_series E I) I = merge_series E I"
  by (simp add: merge_series_map_add map_add_def fun_eq_iff split: option.splits)

section \<open>What the extraction keeps\<close>

lemma extract_loop_total:
  "entries_ok call ed items \<Longrightarrow> \<exists>out'. extract_loop call items ed out = Inr out'"
proof (induction items arbitrary: out)
  case Nil
  then show ?case by simp
next
  case (Cons p items)
  obtain d fs where p: "p = (d, fs)" by (cases p)
  from Cons.prems have rest: "entries_ok call ed items"
    by (simp add: entries_ok_def)
  show ?case
  proof (cases "d < ed")
    case True
    with Cons.IH [OF rest] p show ?thesis by simp
  next
    case False
    with Cons.prems p have ok: "bundle_ok (Made call d) fs"
      by (simp add: entries_ok_def)
    with False p Cons.IH [OF rest] show ?thesis
      by (auto simp: bundle_ok_def split: sum.splits if_splits)
  qed
qed

lemma extract_loop_frame:
  "extract_loop call items ed out = Inr out' \<Longrightarrow> d \<notin> fst ` set items \<Longrightarrow> out' d = out d"
proof (induction items arbitrary: out)
  case Nil
  then show ?case by simp
next
  case (Cons p items)
  obtain d' fs where p: "p = (d', fs)" by (cases p)
  from Cons.prems(2) p have ne: "d' \<noteq> d" and notin: "d \<notin> fst ` set items"
    by auto
  from Cons.prems(1) p ne Cons.IH [OF _ notin] show ?case
    by (auto split: if_splits sum.splits)
qed

lemma extract_loop_sound:
  "extract_loop call items ed out = Inr out' \<Longrightarrow> out' d = Some v \<Longrightarrow>
   out d = Some v \<or>
   (\<exists>kvs adj. (d, JObj kvs) \<in> set items \<and> \<not> d < ed
      \<and> map_of kvs ''5. adjusted close'' = Some adj \<and> adj \<noteq> JNull \<and> py_float (Made call d) adj = Inr v)"
proof (induction items arbitrary: out)
  case Nil
  then show ?case by simp
next
  case (Cons p items)
  obtain d' fs where p: "p = (d', fs)" by (cases p)
  show ?case
  proof (cases "d' < ed")
    case True
    with Cons.prems p have "extract_loop call items ed out = Inr out'" by simp
    from Cons.IH [OF this Cons.prems(2)] show ?thesis by auto
  next
    case False
    note nlt = this
    from Cons.prems(1) p False obtain adj where g: "py_get fs ''5. adjusted close'' = Inr adj"
      by (auto split: sum.splits)
    show ?thesis
    proof (cases "adj = JNull")
      case True
      with Cons.prems p nlt g have "extract_loop call items ed out = Inr out'" by simp
      from Cons.IH [OF this Cons.prems(2)] show ?thesis by auto
    next
      case False
      note nn = this
      show ?thesis
      proof (cases "py_float (Made call d') adj")
        case (Inl e)
        with Cons.prems p nlt g nn have "extract_loop call items ed out = Inr out'"
          by (simp split: if_splits)
        from Cons.IH [OF this Cons.prems(2)] show ?thesis by auto
      next
        case (Inr v')
        with Cons.prems p nlt g nn have l: "extract_loop call items ed (out(d' \<mapsto> v')) = Inr out'"
          by simp
        from g nn obtain kvs where f: "fs = JObj kvs"
          and m: "map_of kvs ''5. adjusted close'' = Some adj"
          by (auto simp: py_get_def split: json.splits option.splits)
        from Cons.IH [OF l Cons.prems(2)] show ?thesis
        proof
          assume "(out(d' \<mapsto> v')) d = Some v"
          then show ?thesis using p f m nn nlt Inr
            by (auto split: if_splits)
        next
          assume "\<exists>kvs adj. (d, JObj kvs) \<in> set items \<and> \<not> d < ed
            \<and> map_of kvs ''5. adjusted close'' = Some adj \<and> adj \<noteq> JNull \<and> py_float (Made call d) adj = Inr v"
          then show ?thesis by auto
        qed
      qed
    qed
  qed
qed

lemma extract_loop_complete:
  "extract_loop call items ed out = Inr out' \<Longrightarrow> distinct (map fst items) \<Longrightarrow>
   (d, JObj kvs) \<in> set items \<Longrightarrow> \<not> d < ed \<Longrightarrow>
   map_of kvs ''5. adjusted close'' = Some adj \<Longrightarrow> py_float (Made call d) adj = Inr v \<Longrightarrow>
   out' d = Some v"
proof (induction items arbitrary: out)
  case Nil
  then show ?case by simp
next
  case (Cons p items)
  obtain d' fs where p: "p = (d', fs)" by (cases p)
  from Cons.prems(2) p have dist: "distinct (map fst items)" and fresh: "d' \<notin> fst ` set items"
    by auto
  show ?case
  proof (cases "(d, JObj kvs) = p")
    case True
    with p have eq: "d' = d" "fs = JObj kvs" by auto
    from Cons.prems(6) have nn: "adj \<noteq> JNull" by (auto simp: py_float_def)
    from Cons.prems(1,4,5,6) p eq nn
    have "extract_loop call items ed (out(d \<mapsto> v)) = Inr out'"
      by (simp add: py_get_def)
    from extract_loop_frame [OF this] fresh eq show ?thesis by simp
  next
    case False
    with Cons.prems(3) have mem: "(d, JObj kvs) \<in> set items" by auto
    from Cons.prems(1) p obtain out1 where "extract_loop call items ed out1 = Inr out'"
      by (auto split: if_splits sum.splits)
    from Cons.IH [OF this dist mem Cons.prems(4,5,6)] show ?thesis .
  qed
qed

lemma distinct_same_key:
  "distinct (map fst items) \<Longrightarrow> (d, a) \<in> set items \<Longrightarrow> (d, b) \<in> set items \<Longrightarrow> a = b"
  by (meson eq_key_imp_eq_value)

text \<open>
  The condition \<open>bundle_ok\<close> holds of every bundle whose adjusted close is absent,
  \<^verbatim>\<open>null\<close>, a string, a float or a boolean.
\<close>

lemma bundle_ok_simple:
  "map_of kvs ''5. adjusted close'' = None \<Longrightarrow> bundle_ok new (JObj kvs)"
  "map_of kvs ''5. adjusted close'' = Some JNull \<Longrightarrow> bundle_ok new (JObj kvs)"
  "map_of kvs ''5. adjusted close'' = Some (JStr str) \<Longrightarrow> bundle_ok new (JObj kvs)"
  "map_of kvs ''5. adjusted close'' = Some (JFloat f) \<Longrightarrow> bundle_ok new (JObj kvs)"
  "map_of kvs ''5. adjusted close'' = Some (JBool b) \<Longrightarrow> bundle_ok new (JObj kvs)"
  by (simp_all add: bundle_ok_def py_get_def py_float_def split: option.splits)

subsection \<open>Evaluation on the example inputs\<close>

lemma decoded_simps [simp]:
  "decoded (Finite q) = Finite q"
  "decoded PosInf = PosInf"
  "decoded NegInf = NegInf"
  "decoded (NaN u) = NaN Decoder_NaN"
  by (simp_all add: decoded_def)

lemma encoded_simps [simp]:
  "encoded (Finite q) = Finite q"
  "encoded PosInf = PosInf"
  "encoded NegInf = NegInf"
  "encoded (NaN obj) = NaN ()"
  by (simp_all add: encoded_def)

lemma example_series_encoded: "map_option encoded \<circ> example_series = example_series_json"
  by (simp add: example_series_def example_series_json_def)

lemma example_series_decoded: "map_option decoded \<circ> example_series_json = example_series"
  by (simp add: example_series_def example_series_json_def)

lemma float_of_str_10_5: "float_of_str new ''10.5'' = Some (Finite (21 / 2))"
  by code_simp

lemma float_of_str_n_a: "float_of_str new ''n/a'' = None"
  by code_simp

lemma float_of_str_inf: "float_of_str new ''inf'' = Some PosInf"
  by code_simp

lemma float_of_str_nan: "float_of_str new ''nan'' = Some (NaN new)"
  by code_simp

lemma bit_length_pow2: "bit_length (2 ^ n) = int n + 1"
proof (induction n)
  case 0
  show ?case by (simp add: bit_length.simps [of 1] bit_length.simps [of 0])
next
  case (Suc n)
  have "bit_length (2 ^ Suc n) = 1 + bit_length (2 ^ Suc n div 2)"
    by (subst bit_length.simps) simp
  with Suc show ?case by simp
qed

lemma ilog2_pow2: "ilog2 (2 ^ n) = int n"
proof -
  have "(2::rat) ^ n = Fract (2 ^ n) 1"
    by (simp add: Fract_of_int_eq)
  then have q: "quotient_of ((2::rat) ^ n) = (2 ^ n, 1)"
    by (simp add: quotient_of_Fract)
  have b1: "bit_length 1 = 1"
    by (simp add: bit_length.simps [of 1] bit_length.simps [of 0])
  show ?thesis
    by (simp add: ilog2_def q bit_length_pow2 b1 pow2_def)
qed

lemma round_half_even_int: "round_half_even (of_int i) = i"
  by (simp add: round_half_even_def)

lemma round_to_double_pow2_1024: "round_to_double (2 ^ 1024) = PosInf"
proof -
  have d: "(2::rat) ^ 1024 / pow2 972 = of_int (2 ^ 52)"
  proof -
    have "(2::rat) ^ 1024 = 2 ^ 52 * 2 ^ 972"
      by (simp only: power_add [symmetric]) simp
    then show ?thesis by (simp add: pow2_def)
  qed
  have m: "of_int (round_half_even ((2::rat) ^ 1024 / pow2 972)) * pow2 972 = (2::rat) ^ 1024"
  proof -
    have "(of_int (2 ^ 52) :: rat) * pow2 972 = 2 ^ 52 * 2 ^ 972"
      by (simp add: pow2_def)
    also have "\<dots> = (2::rat) ^ 1024"
      by (simp only: power_add [symmetric]) simp
    finally show ?thesis by (simp only: d round_half_even_int)
  qed
  have i: "ilog2 ((2::rat) ^ 1024) = 1024"
    using ilog2_pow2 [of 1024] by simp
  have nz: "(2::rat) ^ 1024 \<noteq> 0" by simp
  have pos: "(0::rat) < 2 ^ 1024" by simp
  have ab: "\<bar>(2::rat) ^ 1024\<bar> = 2 ^ 1024" by simp
  show ?thesis
    unfolding round_to_double_def Let_def ab i
    using nz pos m by simp
qed

lemma py_float_huge: "py_float new (JInt (2 ^ 1024)) = Inl OverflowError"
proof -
  have "(of_int (2 ^ 1024) :: rat) = 2 ^ 1024" by simp
  then show ?thesis
    by (simp only: py_float_def json.case float_of_int_def round_to_double_pow2_1024 pyfloat.case)
qed

lemma example_container:
  "map_of example_response ''Time Series (Daily)'' = Some (JObj example_items)"
  by (simp add: example_response_def)

lemma example_distinct: "distinct (map fst example_items)"
  by (simp add: example_items_def)

lemma example_entries_ok: "entries_ok call ''2025-07-01'' example_items"
  by (simp add: entries_ok_def example_items_def bundle_ok_def py_get_def py_float_def
      float_of_str_10_5 float_of_str_n_a)

lemma extract_example:
  "extract_adjusted_close_series call example_response ''2025-07-01'' = Inr example_series"
  by (simp add: extract_adjusted_close_series_def example_response_def example_items_def
      example_series_def py_get_def py_float_def float_of_str_10_5 float_of_str_n_a)

lemma extract_empty:
  "extract_adjusted_close_series call empty_response ed = Inr Map.empty"
  by (simp add: extract_adjusted_close_series_def empty_response_def)

lemma extract_single_raises:
  assumes "py_float (Made call d) adj = Inl x" and "x \<noteq> ValueError" and "adj \<noteq> JNull"
  shows "extract_adjusted_close_series call
      [(''Time Series (Daily)'', JObj [(d, JObj [(''5. adjusted close'', adj)])])] d = Inl x"
  using assms by (simp add: extract_adjusted_close_series_def py_get_def)

text \<open>
  C2, for well-formed entries. Take a response whose time-series container is a JSON
  object with distinct dates, in which every entry dated on or after the cutoff is a field
  bundle on which the extraction raises nothing (\<open>entries_ok\<close>: the adjusted close is
  absent, \<^verbatim>\<open>null\<close>, or a value that \<^verbatim>\<open>float\<close> accepts or rejects with \<^verbatim>\<open>ValueError\<close>).
  For every cutoff string, \<open>extract_adjusted_close_series\<close> then returns a mapping that
  (a) has no date before the cutoff, (b) has no entry whose adjusted close was missing,
  \<^verbatim>\<open>null\<close> or rejected by \<^verbatim>\<open>float\<close>, and (c) has, with the value \<^verbatim>\<open>float\<close> gives, every
  entry dated on or after the cutoff whose adjusted close \<^verbatim>\<open>float\<close> accepts.
\<close>

theorem extraction_of_well_formed_entries:
  assumes "map_of av_json ''Time Series (Daily)'' = Some (JObj items)"
    and "distinct (map fst items)"
    and "entries_ok call earliest_date items"
  shows "\<exists>out. extract_adjusted_close_series call av_json earliest_date = Inr out
     \<and> (\<forall>d\<in>dom out. earliest_date \<le> d)
     \<and> (\<forall>d\<in>dom out. \<exists>kvs adj. (d, JObj kvs) \<in> set items
           \<and> map_of kvs ''5. adjusted close'' = Some adj \<and> adj \<noteq> JNull
           \<and> py_float (Made call d) adj = Inr (the (out d)))
     \<and> (\<forall>d kvs adj v. (d, JObj kvs) \<in> set items \<and> earliest_date \<le> d
           \<and> map_of kvs ''5. adjusted close'' = Some adj \<and> py_float (Made call d) adj = Inr v
          \<longrightarrow> out d = Some v)"
proof -
  from extract_loop_total [OF assms(3)] obtain out where
    l: "extract_loop call items earliest_date Map.empty = Inr out" by blast
  with assms(1) have e: "extract_adjusted_close_series call av_json earliest_date = Inr out"
    by (simp add: extract_adjusted_close_series_def)
  have sound: "\<exists>kvs adj. (d, JObj kvs) \<in> set items \<and> \<not> d < earliest_date
      \<and> map_of kvs ''5. adjusted close'' = Some adj \<and> adj \<noteq> JNull \<and> py_float (Made call d) adj = Inr v"
    if "out d = Some v" for d v
    using extract_loop_sound [OF l that] by simp
  have a: "\<forall>d\<in>dom out. earliest_date \<le> d"
    using sound by fastforce
  have b: "\<forall>d\<in>dom out. \<exists>kvs adj. (d, JObj kvs) \<in> set items
           \<and> map_of kvs ''5. adjusted close'' = Some adj \<and> adj \<noteq> JNull
           \<and> py_float (Made call d) adj = Inr (the (out d))"
    using sound by fastforce
  have c: "\<forall>d kvs adj v. (d, JObj kvs) \<in> set items \<and> earliest_date \<le> d
           \<and> map_of kvs ''5. adjusted close'' = Some adj \<and> py_float (Made call d) adj = Inr v
          \<longrightarrow> out d = Some v"
    using extract_loop_complete [OF l assms(2)] by (meson not_le)
  from e a b c show ?thesis by blast
qed

text \<open>
  Without the condition on the entries the extraction can raise: only \<^verbatim>\<open>ValueError\<close> is
  caught, and \<^verbatim>\<open>float\<close> raises \<^verbatim>\<open>TypeError\<close> on a list and \<^verbatim>\<open>OverflowError\<close> on an
  integer beyond the range of a double; a bundle that is no object has no \<^verbatim>\<open>get\<close>.
\<close>

theorem extraction_raises_on_list_or_huge_integer:
  "extract_adjusted_close_series 1 list_response ''2025-07-01'' = Inl TypeError
   \<and> extract_adjusted_close_series 1 huge_response ''2025-07-01'' = Inl OverflowError
   \<and> extract_adjusted_close_series 1 bundle_response ''2025-07-01'' = Inl AttributeError"
proof (intro conjI)
  show "extract_adjusted_close_series 1 list_response ''2025-07-01'' = Inl TypeError"
    unfolding list_response_def
    by (rule extract_single_raises) (simp_all add: py_float_def)
  show "extract_adjusted_close_series 1 huge_response ''2025-07-01'' = Inl OverflowError"
    unfolding huge_response_def
    by (rule extract_single_raises [OF py_float_huge]) simp_all
  show "extract_adjusted_close_series 1 bundle_response ''2025-07-01'' = Inl AttributeError"
    by (simp add: bundle_response_def extract_adjusted_close_series_def py_get_def)
qed

theorem extraction_of_well_formed_entries_witness:
  "map_of example_response ''Time Series (Daily)'' = Some (JObj example_items)
   \<and> distinct (map fst example_items)
   \<and> entries_ok 1 ''2025-07-01'' example_items
   \<and> extract_adjusted_close_series 1 example_response ''2025-07-01'' = Inr example_series
   \<and> (\<exists>out. extract_adjusted_close_series 1 example_response ''2025-07-01'' = Inr out
     \<and> (\<forall>d\<in>dom out. ''2025-07-01'' \<le> d)
     \<and> (\<forall>d\<in>dom out. \<exists>kvs adj. (d, JObj kvs) \<in> set example_items
           \<and> map_of kvs ''5. adjusted close'' = Some adj \<and> adj \<noteq> JNull
           \<and> py_float (Made 1 d) adj = Inr (the (out d)))
     \<and> (\<forall>d kvs adj v. (d, JObj kvs) \<in> set example_items \<and> ''2025-07-01'' \<le> d
           \<and> map_of kvs ''5. adjusted close'' = Some adj \<and> py_float (Made 1 d) adj = Inr v
          \<longrightarrow> out d = Some v))"
  using extraction_of_well_formed_entries
    [OF example_container example_distinct example_entries_ok [of 1]]
    example_container example_distinct example_entries_ok [of 1] extract_example [of 1]
  by blast

text \<open>
  C6, for the values \<^verbatim>\<open>float\<close> returns. Every value stored by the extraction is what
  \<^verbatim>\<open>float\<close> returns on the adjusted close of an entry of that date, a field that is
  present and not \<^verbatim>\<open>null\<close>; the value need not be finite. An entry whose adjusted close
  is absent or not accepted by \<^verbatim>\<open>float\<close> is dropped (the dates of the container being
  distinct), so nothing is stored in place of a value; and every value of a merged series
  is a value of the existing series or a value stored by the extraction.
\<close>

theorem extraction_stores_float_of_field:
  assumes "extract_adjusted_close_series call av_json earliest_date = Inr out"
  shows "\<exists>items. map_of av_json ''Time Series (Daily)'' = Some (JObj items)
     \<and> (\<forall>d\<in>dom out. \<exists>kvs adj. (d, JObj kvs) \<in> set items
           \<and> map_of kvs ''5. adjusted close'' = Some adj \<and> adj \<noteq> JNull
           \<and> py_float (Made call d) adj = Inr (the (out d)))
     \<and> (\<forall>d kvs. distinct (map fst items) \<and> (d, JObj kvs) \<in> set items
           \<and> (case map_of kvs ''5. adjusted close'' of
                 None \<Rightarrow> True
               | Some adj \<Rightarrow> (case py_float (Made call d) adj of Inl x \<Rightarrow> True | Inr v \<Rightarrow> False))
          \<longrightarrow> out d = None)
     \<and> (\<forall>existing d v. merge_series existing out d = Some v
          \<longrightarrow> existing d = Some v \<or> out d = Some v)"
proof -
  from assms obtain items where ts: "map_of av_json ''Time Series (Daily)'' = Some (JObj items)"
    and l: "extract_loop call items earliest_date Map.empty = Inr out"
    by (auto simp: extract_adjusted_close_series_def split: option.splits json.splits)
  have sound: "\<exists>kvs adj. (d, JObj kvs) \<in> set items \<and> \<not> d < earliest_date
      \<and> map_of kvs ''5. adjusted close'' = Some adj \<and> adj \<noteq> JNull \<and> py_float (Made call d) adj = Inr v"
    if "out d = Some v" for d v
    using extract_loop_sound [OF l that] by simp
  have stored: "\<forall>d\<in>dom out. \<exists>kvs adj. (d, JObj kvs) \<in> set items
           \<and> map_of kvs ''5. adjusted close'' = Some adj \<and> adj \<noteq> JNull
           \<and> py_float (Made call d) adj = Inr (the (out d))"
    using sound by fastforce
  have dropped: "out d = None"
    if dist: "distinct (map fst items)" and mem: "(d, JObj kvs) \<in> set items"
      and bad: "case map_of kvs ''5. adjusted close'' of
                 None \<Rightarrow> True
               | Some adj \<Rightarrow> (case py_float (Made call d) adj of Inl x \<Rightarrow> True | Inr v \<Rightarrow> False)"
    for d kvs
  proof (rule ccontr)
    assume "out d \<noteq> None"
    then obtain v where "out d = Some v" by auto
    from sound [OF this] obtain kvs' adj where m': "(d, JObj kvs') \<in> set items"
      and f: "map_of kvs' ''5. adjusted close'' = Some adj" "py_float (Made call d) adj = Inr v"
      by blast
    from distinct_same_key [OF dist mem m'] have "kvs' = kvs" by simp
    with f bad show False by simp
  qed
  have merged: "\<forall>existing d v. merge_series existing out d = Some v
          \<longrightarrow> existing d = Some v \<or> out d = Some v"
    by (auto simp: merge_series_map_add map_add_Some_iff)
  from ts stored dropped merged show ?thesis by blast
qed

text \<open>
  \<^verbatim>\<open>float("inf")\<close> is infinity, not an error: the extraction stores it.
\<close>

theorem extraction_stores_infinity:
  "extract_adjusted_close_series 1 inf_response ''2025-07-01'' = Inr [''2025-07-01'' \<mapsto> PosInf]"
  by (simp add: extract_adjusted_close_series_def inf_response_def py_get_def py_float_def
      float_of_str_inf)

theorem extraction_stores_float_of_field_witness:
  "extract_adjusted_close_series 1 example_response ''2025-07-01'' = Inr example_series
   \<and> (\<exists>items. map_of example_response ''Time Series (Daily)'' = Some (JObj items)
     \<and> (\<forall>d\<in>dom example_series. \<exists>kvs adj. (d, JObj kvs) \<in> set items
           \<and> map_of kvs ''5. adjusted close'' = Some adj \<and> adj \<noteq> JNull
           \<and> py_float (Made 1 d) adj = Inr (the (example_series d)))
     \<and> (\<forall>d kvs. distinct (map fst items) \<and> (d, JObj kvs) \<in> set items
           \<and> (case map_of kvs ''5. adjusted close'' of
                 None \<Rightarrow> True
               | Some adj \<Rightarrow> (case py_float (Made 1 d) adj of Inl x \<Rightarrow> True | Inr v \<Rightarrow> False))
          \<longrightarrow> example_series d = None)
     \<and> (\<forall>existing d v. merge_series existing example_series d = Some v
          \<longrightarrow> existing d = Some v \<or> example_series d = Some v))
   \<and> example_series ''2025-07-04'' = None"
proof -
  have dropped: "example_series ''2025-07-04'' = None"
    by (simp add: example_series_def)
  from extraction_stores_float_of_field [OF extract_example [of 1]] extract_example [of 1] dropped
  show ?thesis by blast
qed

section \<open>The loop over the tickers\<close>

lemma process_ticker_world:
  "process_ticker e av ed i symb s = Inr s1 \<Longrightarrow>
   world s1 = (world s)\<lparr>trace := trace (world s) @ ticker_events av symb\<rparr>"
  by (auto simp: process_ticker_def Let_def sleep_def ticker_events_def split: sum.splits if_splits)

lemma process_ticker_raises:
  "process_ticker e av ed i symb s = Inl (x, w1) \<Longrightarrow>
   incoming_series e av ed i symb = Inl x
   \<and> w1 = (world s)\<lparr>trace := trace (world s) @ [Request (params symb av)]\<rparr>"
  by (auto simp: process_ticker_def Let_def split: sum.splits if_splits)

lemma process_ticker_raises_if:
  "incoming_series e av ed i symb = Inl x \<Longrightarrow>
   process_ticker e av ed i symb s =
     Inl (x, (world s)\<lparr>trace := trace (world s) @ [Request (params symb av)]\<rparr>)"
  by (simp add: process_ticker_def Let_def)

lemma ticker_loop_append:
  "ticker_loop e av ed i (xs @ ys) s =
     (case ticker_loop e av ed i xs s of
        Inl x \<Rightarrow> Inl x
      | Inr s1 \<Rightarrow> ticker_loop e av ed (i + length xs) ys s1)"
  by (induction xs arbitrary: i s) (auto split: sum.splits)

lemma ticker_loop_world:
  "ticker_loop e av ed i ts s = Inr s1 \<Longrightarrow>
   world s1 = (world s)\<lparr>trace := trace (world s) @ concat (map (ticker_events av) ts)\<rparr>"
proof (induction ts arbitrary: i s)
  case Nil
  then show ?case by simp
next
  case (Cons t ts)
  from Cons.prems obtain s0 where p: "process_ticker e av ed i t s = Inr s0"
    and l: "ticker_loop e av ed (Suc i) ts s0 = Inr s1"
    by (auto split: sum.splits)
  from Cons.IH [OF l] process_ticker_world [OF p] show ?case by simp
qed

lemma ticker_loop_raises:
  "ticker_loop e av ed i ts s = Inl (x, w1) \<Longrightarrow>
   \<exists>k<length ts. w1 = (world s)\<lparr>trace := trace (world s)
       @ concat (map (ticker_events av) (take k ts)) @ [Request (params (ts ! k) av)]\<rparr>"
proof (induction ts arbitrary: i s)
  case Nil
  then show ?case by simp
next
  case (Cons t ts)
  show ?case
  proof (cases "process_ticker e av ed i t s")
    case (Inl xw)
    with Cons.prems have "process_ticker e av ed i t s = Inl (x, w1)" by simp
    from process_ticker_raises [OF this] show ?thesis
      by (intro exI [of _ 0]) simp
  next
    case (Inr s0)
    with Cons.prems have l: "ticker_loop e av ed (Suc i) ts s0 = Inl (x, w1)" by simp
    from Cons.IH [OF l] obtain k where k: "k < length ts"
      and w1: "w1 = (world s0)\<lparr>trace := trace (world s0)
       @ concat (map (ticker_events av) (take k ts)) @ [Request (params (ts ! k) av)]\<rparr>"
      by blast
    from k w1 process_ticker_world [OF Inr] show ?thesis
      by (intro exI [of _ "Suc k"]) simp
  qed
qed

lemma process_ticker_updated:
  "process_ticker e av ed i symb s = Inr s1 \<Longrightarrow>
   updated_any s1 = (updated_any s \<or> ticker_changed e av ed s i symb)"
  by (auto simp: process_ticker_def ticker_changed_def Let_def split: sum.splits if_splits)

lemma ticker_loop_updated:
  "ticker_loop e av ed i ts s = Inr s1 \<Longrightarrow>
   updated_any s1 =
     (updated_any s \<or>
      (\<exists>k<length ts. \<exists>sk. ticker_loop e av ed i (take k ts) s = Inr sk
          \<and> ticker_changed e av ed sk (i + k) (ts ! k)))"
proof (induction ts arbitrary: s1 rule: rev_induct)
  case Nil
  then show ?case by simp
next
  case (snoc t ts)
  from snoc.prems obtain s0 where l: "ticker_loop e av ed i ts s = Inr s0"
    and p: "process_ticker e av ed (i + length ts) t s0 = Inr s1"
    by (auto simp: ticker_loop_append split: sum.splits)
  have split: "(\<exists>k<length (ts @ [t]). \<exists>sk. ticker_loop e av ed i (take k (ts @ [t])) s = Inr sk
          \<and> ticker_changed e av ed sk (i + k) ((ts @ [t]) ! k))
     = ((\<exists>k<length ts. \<exists>sk. ticker_loop e av ed i (take k ts) s = Inr sk
          \<and> ticker_changed e av ed sk (i + k) (ts ! k))
        \<or> ticker_changed e av ed s0 (i + length ts) t)" (is "?L = (?A \<or> ?B)")
  proof
    assume ?L
    then obtain k sk where k: "k < Suc (length ts)"
      and sk: "ticker_loop e av ed i (take k (ts @ [t])) s = Inr sk"
      and ch: "ticker_changed e av ed sk (i + k) ((ts @ [t]) ! k)"
      by auto
    show "?A \<or> ?B"
    proof (cases "k < length ts")
      case True
      with sk ch have "ticker_loop e av ed i (take k ts) s = Inr sk"
        "ticker_changed e av ed sk (i + k) (ts ! k)"
        by (simp_all add: nth_append)
      with True show ?thesis by blast
    next
      case False
      with k have "k = length ts" by simp
      with sk ch l show ?thesis by simp
    qed
  next
    assume "?A \<or> ?B"
    then show ?L
    proof
      assume ?A
      then obtain k sk where "k < length ts" "ticker_loop e av ed i (take k ts) s = Inr sk"
        "ticker_changed e av ed sk (i + k) (ts ! k)" by blast
      then show ?L
        by (intro exI [of _ k]) (simp add: nth_append)
    next
      assume ?B
      with l show ?L
        by (intro exI [of _ "length ts"]) simp
    qed
  qed
  from snoc.IH [OF l] process_ticker_updated [OF p] split show ?case
    by blast
qed

section \<open>The run\<close>

lemma initial_state_world: "world (initial_state w) = w"
  and initial_state_updated: "updated_any (initial_state w) = False"
  by (simp_all add: initial_state_def)

lemma main_returns:
  assumes "main e w = (Inr r, w1)"
  shows "\<exists>cfg tickers s. config_file e = Some cfg \<and> env_api_key e \<noteq> []
     \<and> config_tickers cfg = Inr tickers \<and> tickers \<noteq> []
     \<and> ticker_loop e (run_av_config e) (config_earliest_date cfg) 1 tickers (initial_state w) = Inr s
     \<and> r = 0
     \<and> w1 = (if updated_any s \<or> prices_file w = None
             then dump_json (stamp e cfg (load_current w) s) (world s) else world s)"
proof -
  from assms obtain cfg where cfg: "config_file e = Some cfg"
    by (auto simp: main_def split: option.splits)
  from assms cfg have key: "env_api_key e \<noteq> []"
    by (auto simp: main_def split: if_splits)
  from assms cfg key obtain tickers where t: "config_tickers cfg = Inr tickers"
    by (auto simp: main_def split: sum.splits)
  from assms cfg key t have ne: "tickers \<noteq> []"
    by (auto simp: main_def split: if_splits)
  from assms cfg key t ne obtain s where
    l: "ticker_loop e (run_av_config e) (config_earliest_date cfg) 1 tickers (initial_state w) = Inr s"
    by (auto simp: main_def Let_def split: sum.splits prod.splits)
  from ticker_loop_world [OF l] have pf: "prices_file (world s) = prices_file w"
    by (simp add: initial_state_world)
  from assms cfg key t ne l pf have "r = 0"
    and "w1 = (if updated_any s \<or> prices_file w = None
             then dump_json (stamp e cfg (load_current w) s) (world s) else world s)"
    by (auto simp: main_def Let_def split: if_splits)
  with cfg key t ne l show ?thesis by blast
qed

lemma main_raises:
  assumes "main e w = (Inl x, w1)"
  shows "w1 = w \<or>
    (\<exists>cfg tickers. config_file e = Some cfg \<and> config_tickers cfg = Inr tickers
       \<and> ticker_loop e (run_av_config e) (config_earliest_date cfg) 1 tickers (initial_state w)
           = Inl (x, w1))"
  using assms
  by (auto simp: main_def Let_def split: option.splits if_splits sum.splits prod.splits)

lemma main_runs_loop:
  assumes "config_file e = Some cfg" and "env_api_key e \<noteq> []"
    and "config_tickers cfg = Inr tickers" and "tickers \<noteq> []"
  shows "main e w =
    (case ticker_loop e (run_av_config e) (config_earliest_date cfg) 1 tickers (initial_state w) of
       Inl (x, w1) \<Rightarrow> (Inl x, w1)
     | Inr s \<Rightarrow>
         (Inr 0, if updated_any s \<or> prices_file (world s) = None
                 then dump_json (stamp e cfg (load_current w) s) (world s) else world s))"
  using assms by (auto simp: main_def Let_def split: sum.splits prod.splits)

lemma run_events_eq:
  "trace (snd (main e w)) = trace w @ evs \<Longrightarrow> run_events e w = evs"
  by (simp add: run_events_def)

lemma pauses_ticker_events:
  "pauses (concat (map (ticker_events av) ts) @ evs) = replicate (length ts) 13 @ pauses evs"
  by (induction ts) (simp_all add: ticker_events_def)

lemma writes_ticker_events:
  "writes (concat (map (ticker_events av) ts) @ evs) = writes evs"
  by (induction ts) (simp_all add: ticker_events_def)

lemma requests_ticker_events:
  "requests (concat (map (ticker_events av) ts) @ evs) =
     map (\<lambda>symb. params symb av) ts @ requests evs"
  by (induction ts) (simp_all add: ticker_events_def)

lemma main_success_shape:
  assumes "config_file e = Some cfg" and "config_tickers cfg = Inr tickers"
    and "main e w = (Inr r, w1)"
  obtains s where
    "ticker_loop e (run_av_config e) (config_earliest_date cfg) 1 tickers (initial_state w) = Inr s"
    and "tickers \<noteq> []" and "env_api_key e \<noteq> []" and "r = 0"
    and "w1 = (if updated_any s \<or> prices_file w = None
               then dump_json (stamp e cfg (load_current w) s) (world s) else world s)"
    and "run_events e w = concat (map (ticker_events (run_av_config e)) tickers)
           @ (if updated_any s \<or> prices_file w = None
              then [Write (map_dataset encoded (stamp e cfg (load_current w) s))] else [])"
proof -
  from main_returns [OF assms(3)] assms(1,2) obtain s where
    l: "ticker_loop e (run_av_config e) (config_earliest_date cfg) 1 tickers (initial_state w) = Inr s"
    and ne: "tickers \<noteq> []" and key: "env_api_key e \<noteq> []" and r: "r = 0"
    and w1: "w1 = (if updated_any s \<or> prices_file w = None
               then dump_json (stamp e cfg (load_current w) s) (world s) else world s)"
    by auto
  from ticker_loop_world [OF l]
  have ws: "world s = w\<lparr>trace := trace w @ concat (map (ticker_events (run_av_config e)) tickers)\<rparr>"
    by (simp add: initial_state_world)
  from assms(3) have "snd (main e w) = w1" by simp
  with w1 ws have "trace (snd (main e w)) = trace w @ (concat (map (ticker_events (run_av_config e)) tickers)
           @ (if updated_any s \<or> prices_file w = None
              then [Write (map_dataset encoded (stamp e cfg (load_current w) s))] else []))"
    by (simp add: dump_json_def)
  from run_events_eq [OF this] l ne key r w1 that show thesis by blast
qed

lemma process_ticker_unchanged:
  assumes "incoming_series e av ed i symb = Inr incoming"
    and "merge_series (existing_series s symb) incoming = existing_series s symb"
  shows "\<exists>s1. process_ticker e av ed i symb s = Inr s1
     \<and> current_series s1 = current_series s \<and> updated_any s1 = updated_any s"
  using assms by (simp add: process_ticker_def Let_def)

lemma process_ticker_changed:
  assumes "incoming_series e av ed i symb = Inr incoming"
    and "merge_series (existing_series s symb) incoming \<noteq> existing_series s symb"
  shows "\<exists>s1. process_ticker e av ed i symb s = Inr s1
     \<and> current_series s1
          = (current_series s)(symb \<mapsto> merge_series (existing_series s symb) incoming)
     \<and> updated_any s1"
  using assms by (simp add: process_ticker_def Let_def)

lemma process_ticker_other:
  "process_ticker e av ed i t s = Inr s1 \<Longrightarrow> t \<noteq> symb \<Longrightarrow>
   current_series s1 symb = current_series s symb"
  by (auto simp: process_ticker_def Let_def split: sum.splits if_splits)

lemma ticker_loop_absent:
  "ticker_loop e av ed i ts s = Inr s1 \<Longrightarrow> current_series s symb = None \<Longrightarrow>
   (\<forall>k<length ts. ts ! k = symb \<longrightarrow> incoming_series e av ed (i + k) symb = Inr Map.empty) \<Longrightarrow>
   current_series s1 symb = None"
proof (induction ts arbitrary: i s)
  case Nil
  then show ?case by simp
next
  case (Cons t ts)
  from Cons.prems(1) obtain s0 where p: "process_ticker e av ed i t s = Inr s0"
    and l: "ticker_loop e av ed (Suc i) ts s0 = Inr s1"
    by (auto split: sum.splits)
  have s0: "current_series s0 symb = None"
  proof (cases "t = symb")
    case True
    with Cons.prems(3) have inc: "incoming_series e av ed i symb = Inr Map.empty" by fastforce
    from Cons.prems(2) have "existing_series s symb = Map.empty"
      by (simp add: existing_series_def)
    with process_ticker_unchanged [OF inc, of s] p True Cons.prems(2) show ?thesis
      by (simp add: merge_series_empty)
  next
    case False
    from process_ticker_other [OF p False] Cons.prems(2) show ?thesis by simp
  qed
  from Cons.prems(3) have "\<forall>k<length ts. ts ! k = symb \<longrightarrow>
      incoming_series e av ed (Suc i + k) symb = Inr Map.empty"
    by fastforce
  from Cons.IH [OF l s0 this] show ?case .
qed

lemma process_ticker_new_key:
  assumes "process_ticker e av ed i symb s = Inr s1"
    and "current_series s t = None" and "current_series s1 t = Some m"
  shows "t = symb \<and> m \<noteq> Map.empty"
proof -
  from assms(1) obtain incoming where inc: "incoming_series e av ed i symb = Inr incoming"
    by (auto simp: process_ticker_def Let_def split: sum.splits)
  show ?thesis
  proof (cases "merge_series (existing_series s symb) incoming = existing_series s symb")
    case True
    from process_ticker_unchanged [OF inc True] assms show ?thesis by auto
  next
    case False
    with assms(1) inc have cs: "current_series s1 =
        (current_series s)(symb \<mapsto> merge_series (existing_series s symb) incoming)"
      by (auto simp: process_ticker_def Let_def)
    with assms(2,3) have t: "t = symb" by (auto split: if_splits)
    with cs assms(3) have m: "m = merge_series (existing_series s symb) incoming" by simp
    from t assms(2) have "existing_series s symb = Map.empty"
      by (simp add: existing_series_def)
    with False m t show ?thesis by simp
  qed
qed

lemma incoming_series_raises:
  "fetch_daily_adjusted (http_get e i) symb av = Inl x \<Longrightarrow> incoming_series e av ed i symb = Inl x"
  by (simp add: incoming_series_def)

lemma main_aborts_at:
  assumes cfg: "config_file e = Some cfg" and key: "env_api_key e \<noteq> []"
    and tickers: "config_tickers cfg = Inr (pre @ symb # rest)"
    and pre: "ticker_loop e (run_av_config e) (config_earliest_date cfg) 1 pre (initial_state w) = Inr s"
    and fetch: "fetch_daily_adjusted (http_get e (Suc (length pre))) symb (run_av_config e) = Inl x"
  shows "main e w = (Inl x, w\<lparr>trace := trace w @ concat (map (ticker_events (run_av_config e)) pre)
            @ [Request (params symb (run_av_config e))]\<rparr>)"
proof -
  have ne: "pre @ symb # rest \<noteq> []" by simp
  from ticker_loop_world [OF pre]
  have ws: "world s = w\<lparr>trace := trace w @ concat (map (ticker_events (run_av_config e)) pre)\<rparr>"
    by (simp add: initial_state_world)
  from incoming_series_raises [OF fetch]
  have "process_ticker e (run_av_config e) (config_earliest_date cfg) (Suc (length pre)) symb s =
     Inl (x, (world s)\<lparr>trace := trace (world s) @ [Request (params symb (run_av_config e))]\<rparr>)"
    by (rule process_ticker_raises_if)
  with pre ws have "ticker_loop e (run_av_config e) (config_earliest_date cfg) 1 (pre @ symb # rest)
      (initial_state w) = Inl (x, w\<lparr>trace := trace w @ concat (map (ticker_events (run_av_config e)) pre)
            @ [Request (params symb (run_av_config e))]\<rparr>)"
    by (simp add: ticker_loop_append)
  with main_runs_loop [OF cfg key tickers ne, of w] show ?thesis by simp
qed

lemma main_failure_writes_nothing:
  assumes "main e w = (Inl x, w1)"
  shows "prices_file w1 = prices_file w \<and> writes (run_events e w) = []"
proof -
  from main_raises [OF assms] show ?thesis
  proof
    assume "w1 = w"
    with assms show ?thesis by (simp add: run_events_def)
  next
    assume "\<exists>cfg tickers. config_file e = Some cfg \<and> config_tickers cfg = Inr tickers
       \<and> ticker_loop e (run_av_config e) (config_earliest_date cfg) 1 tickers (initial_state w)
           = Inl (x, w1)"
    then obtain cfg tickers where
      "ticker_loop e (run_av_config e) (config_earliest_date cfg) 1 tickers (initial_state w)
           = Inl (x, w1)" by blast
    from ticker_loop_raises [OF this] obtain k where
      w1: "w1 = w\<lparr>trace := trace w @ concat (map (ticker_events (run_av_config e)) (take k tickers))
          @ [Request (params (tickers ! k) (run_av_config e))]\<rparr>"
      by (auto simp: initial_state_world)
    from assms have "snd (main e w) = w1" by simp
    with w1 have "run_events e w = concat (map (ticker_events (run_av_config e)) (take k tickers))
          @ [Request (params (tickers ! k) (run_av_config e))]"
      by (intro run_events_eq) simp
    with w1 show ?thesis by (simp add: writes_ticker_events)
  qed
qed

section \<open>The example runs\<close>

lemma example_env_sel:
  "config_file example_env = Some example_config"
  "api_key_env example_env = Some '' demo ''"
  "http_get example_env i rq =
     (if rq_symbol rq = ''AAPL'' then Inr example_response else Inr empty_response)"
  "utc_now example_env = ''2025-08-01 06:00:00Z''"
  by (simp_all add: example_env_def)

lemma failing_env_sel:
  "config_file failing_env = Some example_config"
  "api_key_env failing_env = Some '' demo ''"
  "http_get failing_env i rq =
     (if i = 2 then Inr error_response else http_get example_env i rq)"
  by (simp_all add: failing_env_def example_env_sel)

lemma quiet_env_sel:
  "config_file quiet_env = Some example_config"
  "api_key_env quiet_env = Some '' demo ''"
  "http_get quiet_env i rq = Inr empty_response"
  "utc_now quiet_env = ''2025-08-01 06:00:00Z''"
  by (simp_all add: quiet_env_def example_env_sel)

lemma strip_demo: "strip_with unicode_isspace '' demo '' = ''demo''"
  by (simp add: strip_with_def unicode_isspace_def)

lemma env_key:
  "env_api_key example_env = ''demo''"
  "env_api_key failing_env = ''demo''"
  "env_api_key quiet_env = ''demo''"
  by (simp_all add: env_api_key_def example_env_sel failing_env_sel quiet_env_sel strip_demo)

lemma env_key_nonempty:
  "env_api_key example_env \<noteq> []"
  "env_api_key failing_env \<noteq> []"
  "env_api_key quiet_env \<noteq> []"
  by (simp_all add: env_key)

lemma example_tickers: "config_tickers example_config = Inr [''AAPL'', ''MSFT'', ''NVDA'']"
  by (simp add: config_tickers_def example_config_def)

lemma example_ed: "config_earliest_date example_config = ''2025-07-01''"
  by (simp add: config_earliest_date_def example_config_def)

lemma example_source: "source_or example_config key dflt = dflt"
  by (simp add: source_or_def example_config_def)

lemma response_keys:
  "map_of example_response ''Error Message'' = None"
  "map_of example_response ''Note'' = None"
  "map_of empty_response ''Error Message'' = None"
  "map_of empty_response ''Note'' = None"
  "map_of empty_response ''Time Series (Daily)'' = Some (JObj [])"
  "map_of error_response ''Error Message'' = Some (JStr ''Invalid API call.'')"
  by (simp_all add: example_response_def empty_response_def error_response_def)

lemma fetch_example:
  "fetch_daily_adjusted (http_get example_env i) symb av =
     Inr (if symb = ''AAPL'' then example_response else empty_response)"
  by (simp add: fetch_daily_adjusted_def example_env_sel params_def response_keys
      example_container)

lemma fetch_quiet: "fetch_daily_adjusted (http_get quiet_env i) symb av = Inr empty_response"
  by (simp add: fetch_daily_adjusted_def quiet_env_sel response_keys)

lemma fetch_failing:
  "fetch_daily_adjusted (http_get failing_env i) symb av =
     (if i = 2 then Inl (RuntimeError (AV_error symb (JStr ''Invalid API call.'')))
      else Inr (if symb = ''AAPL'' then example_response else empty_response))"
  using fetch_example [of i symb av]
  by (simp add: fetch_daily_adjusted_def failing_env_sel response_keys)

lemma incoming_example:
  "incoming_series example_env av ''2025-07-01'' i symb =
     (if symb = ''AAPL'' then Inr example_series else Inr Map.empty)"
  by (simp add: incoming_series_def fetch_example extract_example extract_empty)

lemma incoming_quiet: "incoming_series quiet_env av ed i symb = Inr Map.empty"
  by (simp add: incoming_series_def fetch_quiet extract_empty)

lemma incoming_failing:
  "incoming_series failing_env av ''2025-07-01'' i symb =
     (if i = 2 then Inl (RuntimeError (AV_error symb (JStr ''Invalid API call.'')))
      else if symb = ''AAPL'' then Inr example_series else Inr Map.empty)"
  by (simp add: incoming_series_def fetch_failing extract_example extract_empty)

lemma example_series_nonempty: "example_series \<noteq> Map.empty"
  by (simp add: example_series_def)

lemma initial_fresh:
  "initial_state fresh_world = \<lparr>current_series = Map.empty, updated_any = False, world = fresh_world\<rparr>"
  by (simp add: initial_state_def load_current_def fresh_world_def)

lemma loop_example:
  "ticker_loop example_env av ''2025-07-01'' 1 [''AAPL'', ''MSFT'', ''NVDA''] (initial_state fresh_world) =
     Inr \<lparr>current_series = [''AAPL'' \<mapsto> example_series], updated_any = True,
          world = \<lparr>prices_file = None,
                    trace = [Request (params ''AAPL'' av), Sleep 13, Request (params ''MSFT'' av), Sleep 13,
                             Request (params ''NVDA'' av), Sleep 13]\<rparr>\<rparr>"
  unfolding initial_fresh
  by (simp add: process_ticker_def incoming_example merge_series_map_add existing_series_def
      fresh_world_def sleep_def Let_def example_series_nonempty)

lemma loop_quiet:
  "ticker_loop quiet_env av ed 1 [''AAPL'', ''MSFT'', ''NVDA''] (initial_state fresh_world) =
     Inr \<lparr>current_series = Map.empty, updated_any = False,
          world = \<lparr>prices_file = None,
                    trace = [Request (params ''AAPL'' av), Sleep 13, Request (params ''MSFT'' av), Sleep 13,
                             Request (params ''NVDA'' av), Sleep 13]\<rparr>\<rparr>"
  unfolding initial_fresh
  by (simp add: process_ticker_def incoming_quiet merge_series_map_add existing_series_def
      fresh_world_def sleep_def Let_def)

lemma loop_failing_prefix:
  "ticker_loop failing_env av ''2025-07-01'' 1 [''AAPL''] (initial_state fresh_world) =
     Inr \<lparr>current_series = [''AAPL'' \<mapsto> example_series], updated_any = True,
          world = \<lparr>prices_file = None, trace = [Request (params ''AAPL'' av), Sleep 13]\<rparr>\<rparr>"
  unfolding initial_fresh
  by (simp add: process_ticker_def incoming_failing merge_series_map_add existing_series_def
      fresh_world_def sleep_def Let_def example_series_nonempty)

lemma three_tickers: "[''AAPL'', ''MSFT'', ''NVDA''] \<noteq> []"
  by simp

lemma main_example:
  "main example_env fresh_world =
    (Inr 0,
     \<lparr>prices_file = Some example_written,
      trace = [Request (params ''AAPL'' (run_av_config example_env)), Sleep 13,
               Request (params ''MSFT'' (run_av_config example_env)), Sleep 13,
               Request (params ''NVDA'' (run_av_config example_env)), Sleep 13,
               Write example_written]\<rparr>)"
  unfolding main_runs_loop [OF example_env_sel(1) env_key_nonempty(1) example_tickers three_tickers,
      of fresh_world] example_ed loop_example
  by (simp add: stamp_def example_source example_ed example_env_sel load_current_def
      fresh_world_def dump_json_def example_written_def map_dataset_def example_series_encoded)

lemma main_quiet:
  "main quiet_env fresh_world =
    (Inr 0,
     \<lparr>prices_file = Some (example_written\<lparr>ds_series := Some Map.empty\<rparr>),
      trace = [Request (params ''AAPL'' (run_av_config quiet_env)), Sleep 13,
               Request (params ''MSFT'' (run_av_config quiet_env)), Sleep 13,
               Request (params ''NVDA'' (run_av_config quiet_env)), Sleep 13,
               Write (example_written\<lparr>ds_series := Some Map.empty\<rparr>)]\<rparr>)"
  unfolding main_runs_loop [OF quiet_env_sel(1) env_key_nonempty(3) example_tickers three_tickers,
      of fresh_world] loop_quiet
  by (simp add: stamp_def example_source example_ed quiet_env_sel load_current_def
      fresh_world_def dump_json_def example_written_def map_dataset_def)

lemma initial_settled:
  "initial_state settled_world =
     \<lparr>current_series = [''AAPL'' \<mapsto> example_series], updated_any = False, world = settled_world\<rparr>"
  by (simp add: initial_state_def load_current_def settled_world_def example_written_def
      load_json_def map_dataset_def example_series_decoded)

lemma loop_settled:
  "ticker_loop example_env av ''2025-07-01'' 1 [''AAPL'', ''MSFT'', ''NVDA''] (initial_state settled_world) =
     Inr \<lparr>current_series = [''AAPL'' \<mapsto> example_series], updated_any = False,
          world = \<lparr>prices_file = Some example_written,
                    trace = [Request (params ''AAPL'' av), Sleep 13, Request (params ''MSFT'' av), Sleep 13,
                             Request (params ''NVDA'' av), Sleep 13]\<rparr>\<rparr>"
  unfolding initial_settled
  by (simp add: process_ticker_def incoming_example merge_series_map_add existing_series_def
      settled_world_def sleep_def Let_def map_add_same)

lemma main_settled:
  "main example_env settled_world =
    (Inr 0,
     \<lparr>prices_file = Some example_written,
      trace = [Request (params ''AAPL'' (run_av_config example_env)), Sleep 13,
               Request (params ''MSFT'' (run_av_config example_env)), Sleep 13,
               Request (params ''NVDA'' (run_av_config example_env)), Sleep 13]\<rparr>)"
  unfolding main_runs_loop [OF example_env_sel(1) env_key_nonempty(1) example_tickers three_tickers,
      of settled_world] example_ed loop_settled
  by simp

lemma run_events_example:
  "run_events example_env fresh_world =
     [Request (params ''AAPL'' (run_av_config example_env)), Sleep 13,
      Request (params ''MSFT'' (run_av_config example_env)), Sleep 13,
      Request (params ''NVDA'' (run_av_config example_env)), Sleep 13,
      Write example_written]"
  unfolding run_events_def main_example by (simp add: fresh_world_def)

lemma run_events_settled:
  "run_events example_env settled_world =
     [Request (params ''AAPL'' (run_av_config example_env)), Sleep 13,
      Request (params ''MSFT'' (run_av_config example_env)), Sleep 13,
      Request (params ''NVDA'' (run_av_config example_env)), Sleep 13]"
  unfolding run_events_def main_settled by (simp add: settled_world_def)

lemma run_events_quiet:
  "run_events quiet_env fresh_world =
     [Request (params ''AAPL'' (run_av_config quiet_env)), Sleep 13,
      Request (params ''MSFT'' (run_av_config quiet_env)), Sleep 13,
      Request (params ''NVDA'' (run_av_config quiet_env)), Sleep 13,
      Write (example_written\<lparr>ds_series := Some Map.empty\<rparr>)]"
  unfolding run_events_def main_quiet by (simp add: fresh_world_def)

lemma process_example_first:
  "process_ticker example_env av ''2025-07-01'' 1 ''AAPL'' (initial_state fresh_world) =
     Inr \<lparr>current_series = [''AAPL'' \<mapsto> example_series], updated_any = True,
          world = \<lparr>prices_file = None, trace = [Request (params ''AAPL'' av), Sleep 13]\<rparr>\<rparr>"
  unfolding initial_fresh
  by (simp add: process_ticker_def incoming_example merge_series_map_add existing_series_def
      fresh_world_def sleep_def Let_def example_series_nonempty)

subsection \<open>Runs on a dataset that holds NaN\<close>

text \<open>
  The file holds NaN at a date. When the response gives the string \<^verbatim>\<open>nan\<close> at that date,
  \<^verbatim>\<open>float\<close> makes a new object, the merged series differs from the existing one and the
  file is written again; when the response gives the literal \<^verbatim>\<open>NaN\<close>, the decoder's
  object is stored again, nothing differs and nothing is written.
\<close>

lemma nan_env_sel:
  "config_file nan_env = Some example_config"
  "http_get nan_env i rq =
     (if rq_symbol rq = ''AAPL'' then Inr nan_response else Inr empty_response)"
  "config_file nan_literal_env = Some example_config"
  "http_get nan_literal_env i rq =
     (if rq_symbol rq = ''AAPL'' then Inr nan_literal_response else Inr empty_response)"
  by (simp_all add: nan_env_def nan_literal_env_def example_env_sel)

lemma nan_env_key:
  "env_api_key nan_env = ''demo''"
  "env_api_key nan_literal_env = ''demo''"
  by (simp_all add: env_api_key_def nan_env_def nan_literal_env_def example_env_sel strip_demo)

lemma nan_env_key_nonempty:
  "env_api_key nan_env \<noteq> []"
  "env_api_key nan_literal_env \<noteq> []"
  by (simp_all add: nan_env_key)

lemma extract_nan:
  "extract_adjusted_close_series call nan_response ''2025-07-01''
     = Inr [''2025-07-01'' \<mapsto> NaN (Made call ''2025-07-01'')]"
  by (simp add: extract_adjusted_close_series_def nan_response_def py_get_def py_float_def
      float_of_str_nan)

lemma extract_nan_literal:
  "extract_adjusted_close_series call nan_literal_response ''2025-07-01''
     = Inr [''2025-07-01'' \<mapsto> NaN Decoder_NaN]"
  by (simp add: extract_adjusted_close_series_def nan_literal_response_def py_get_def
      py_float_def)

lemma nan_response_keys:
  "map_of nan_response ''Error Message'' = None"
  "map_of nan_response ''Note'' = None"
  "map_of nan_response ''Time Series (Daily)'' \<noteq> None"
  "map_of nan_literal_response ''Error Message'' = None"
  "map_of nan_literal_response ''Note'' = None"
  "map_of nan_literal_response ''Time Series (Daily)'' \<noteq> None"
  by (simp_all add: nan_response_def nan_literal_response_def)

lemma fetch_nan:
  "fetch_daily_adjusted (http_get nan_env i) symb av =
     Inr (if symb = ''AAPL'' then nan_response else empty_response)"
  "fetch_daily_adjusted (http_get nan_literal_env i) symb av =
     Inr (if symb = ''AAPL'' then nan_literal_response else empty_response)"
  by (simp_all add: fetch_daily_adjusted_def nan_env_sel params_def response_keys
      nan_response_keys)

lemma incoming_nan:
  "incoming_series nan_env av ''2025-07-01'' i symb =
     (if symb = ''AAPL'' then Inr [''2025-07-01'' \<mapsto> NaN (Made i ''2025-07-01'')]
      else Inr Map.empty)"
  by (simp add: incoming_series_def fetch_nan extract_nan extract_empty)

lemma incoming_nan_literal:
  "incoming_series nan_literal_env av ''2025-07-01'' i symb =
     (if symb = ''AAPL'' then Inr [''2025-07-01'' \<mapsto> NaN Decoder_NaN] else Inr Map.empty)"
  by (simp add: incoming_series_def fetch_nan extract_nan_literal extract_empty)

lemma initial_nan:
  "initial_state nan_world =
     \<lparr>current_series = [''AAPL'' \<mapsto> [''2025-07-01'' \<mapsto> NaN Decoder_NaN]],
      updated_any = False, world = nan_world\<rparr>"
  by (simp add: initial_state_def load_current_def nan_world_def nan_written_def
      example_written_def load_json_def map_dataset_def)

lemma ticker_changed_nan:
  "ticker_changed nan_env av ''2025-07-01'' (initial_state nan_world) 1 ''AAPL''"
  unfolding initial_nan
  by (simp add: ticker_changed_def incoming_nan existing_series_def merge_series_map_add
      singleton_map_eq)

lemma ticker_unchanged_nan_literal:
  "\<not> ticker_changed nan_literal_env av ''2025-07-01'' (initial_state nan_world) 1 ''AAPL''"
  unfolding initial_nan
  by (simp add: ticker_changed_def incoming_nan_literal existing_series_def merge_series_map_add)

lemma loop_nan:
  "ticker_loop nan_env av ''2025-07-01'' 1 [''AAPL'', ''MSFT'', ''NVDA''] (initial_state nan_world) =
     Inr \<lparr>current_series = [''AAPL'' \<mapsto> [''2025-07-01'' \<mapsto> NaN (Made 1 ''2025-07-01'')]],
          updated_any = True,
          world = \<lparr>prices_file = Some nan_written,
                    trace = [Request (params ''AAPL'' av), Sleep 13, Request (params ''MSFT'' av), Sleep 13,
                             Request (params ''NVDA'' av), Sleep 13]\<rparr>\<rparr>"
  unfolding initial_nan
  unfolding nan_world_def
  by (simp add: process_ticker_def incoming_nan merge_series_map_add existing_series_def
      sleep_def Let_def singleton_map_eq)

lemma loop_nan_literal:
  "ticker_loop nan_literal_env av ''2025-07-01'' 1 [''AAPL'', ''MSFT'', ''NVDA'']
      (initial_state nan_world) =
     Inr \<lparr>current_series = [''AAPL'' \<mapsto> [''2025-07-01'' \<mapsto> NaN Decoder_NaN]],
          updated_any = False,
          world = \<lparr>prices_file = Some nan_written,
                    trace = [Request (params ''AAPL'' av), Sleep 13, Request (params ''MSFT'' av), Sleep 13,
                             Request (params ''NVDA'' av), Sleep 13]\<rparr>\<rparr>"
  unfolding initial_nan
  unfolding nan_world_def
  by (simp add: process_ticker_def incoming_nan_literal merge_series_map_add existing_series_def
      sleep_def Let_def)

lemma main_nan:
  "main nan_env nan_world =
    (Inr 0,
     \<lparr>prices_file = Some nan_written,
      trace = [Request (params ''AAPL'' (run_av_config nan_env)), Sleep 13,
               Request (params ''MSFT'' (run_av_config nan_env)), Sleep 13,
               Request (params ''NVDA'' (run_av_config nan_env)), Sleep 13,
               Write nan_written]\<rparr>)"
  unfolding main_runs_loop [OF nan_env_sel(1) nan_env_key_nonempty(1) example_tickers three_tickers,
      of nan_world] example_ed loop_nan
  by (simp add: stamp_def example_source example_ed nan_env_def example_env_sel load_current_def
      nan_world_def dump_json_def example_written_def nan_written_def map_dataset_def
      load_json_def)

lemma main_nan_literal:
  "main nan_literal_env nan_world =
    (Inr 0,
     \<lparr>prices_file = Some nan_written,
      trace = [Request (params ''AAPL'' (run_av_config nan_literal_env)), Sleep 13,
               Request (params ''MSFT'' (run_av_config nan_literal_env)), Sleep 13,
               Request (params ''NVDA'' (run_av_config nan_literal_env)), Sleep 13]\<rparr>)"
  unfolding main_runs_loop [OF nan_env_sel(3) nan_env_key_nonempty(2) example_tickers three_tickers,
      of nan_world] example_ed loop_nan_literal
  by simp

lemma run_events_nan_literal:
  "run_events nan_literal_env nan_world =
     [Request (params ''AAPL'' (run_av_config nan_literal_env)), Sleep 13,
      Request (params ''MSFT'' (run_av_config nan_literal_env)), Sleep 13,
      Request (params ''NVDA'' (run_av_config nan_literal_env)), Sleep 13]"
  unfolding run_events_def main_nan_literal by (simp add: nan_world_def)

section \<open>Claims on the run\<close>

text \<open>
  C3. For every symbol, when the request returns a parsed response: if the response has
  the key \<^verbatim>\<open>Error Message\<close>, the fetch fails with the provider's error (the
  \<^verbatim>\<open>RuntimeError\<close> "Alpha Vantage error for ..."); otherwise, if it has the key \<^verbatim>\<open>Note\<close>, it
  fails with the throttling error ("Alpha Vantage throttled this request for ...");
  otherwise, if it lacks the key \<^verbatim>\<open>Time Series (Daily)\<close>, it fails with the schema error
  ("Unexpected Alpha Vantage response for ..."). The checks are made in this order. When
  the fetch for a ticker fails after the tickers before it were processed, the run fails
  with that error at once: its events are those of the earlier tickers and the failing
  request, nothing of the remaining tickers, and the dataset file is as before. No run
  that fails writes the file.
\<close>

theorem fetch_failures_abort_the_run:
  "(get (params symbol av) = Inr j \<and> map_of j ''Error Message'' = Some m \<longrightarrow>
      fetch_daily_adjusted get symbol av = Inl (RuntimeError (AV_error symbol m)))
   \<and> (get (params symbol av) = Inr j \<and> map_of j ''Error Message'' = None
        \<and> map_of j ''Note'' = Some n \<longrightarrow>
      fetch_daily_adjusted get symbol av = Inl (RuntimeError (AV_throttled symbol n)))
   \<and> (get (params symbol av) = Inr j \<and> map_of j ''Error Message'' = None
        \<and> map_of j ''Note'' = None \<and> map_of j ''Time Series (Daily)'' = None \<longrightarrow>
      fetch_daily_adjusted get symbol av = Inl (RuntimeError (AV_unexpected symbol (map fst j))))
   \<and> (config_file e = Some cfg \<and> env_api_key e \<noteq> []
        \<and> config_tickers cfg = Inr (pre @ symb # rest)
        \<and> ticker_loop e (run_av_config e) (config_earliest_date cfg) 1 pre (initial_state w) = Inr s
        \<and> fetch_daily_adjusted (http_get e (Suc (length pre))) symb (run_av_config e) = Inl x \<longrightarrow>
      fst (main e w) = Inl x
      \<and> run_events e w = concat (map (ticker_events (run_av_config e)) pre)
            @ [Request (params symb (run_av_config e))]
      \<and> prices_file (snd (main e w)) = prices_file w)
   \<and> (fst (main e w) = Inl x \<longrightarrow>
      prices_file (snd (main e w)) = prices_file w \<and> writes (run_events e w) = [])"
proof (intro conjI impI)
  assume "config_file e = Some cfg \<and> env_api_key e \<noteq> []
        \<and> config_tickers cfg = Inr (pre @ symb # rest)
        \<and> ticker_loop e (run_av_config e) (config_earliest_date cfg) 1 pre (initial_state w) = Inr s
        \<and> fetch_daily_adjusted (http_get e (Suc (length pre))) symb (run_av_config e) = Inl x"
  then have m: "main e w = (Inl x, w\<lparr>trace := trace w @ concat (map (ticker_events (run_av_config e)) pre)
            @ [Request (params symb (run_av_config e))]\<rparr>)"
    by (intro main_aborts_at) auto
  then show "fst (main e w) = Inl x" and "prices_file (snd (main e w)) = prices_file w"
    by simp_all
  from m show "run_events e w = concat (map (ticker_events (run_av_config e)) pre)
            @ [Request (params symb (run_av_config e))]"
    by (intro run_events_eq) simp
next
  assume a: "fst (main e w) = Inl x"
  then have "main e w = (Inl x, snd (main e w))"
    by (metis prod.collapse)
  from main_failure_writes_nothing [OF this]
  show "prices_file (snd (main e w)) = prices_file w" and "writes (run_events e w) = []"
    by simp_all
qed (simp_all add: fetch_daily_adjusted_def)

theorem fetch_failures_abort_the_run_witness:
  "fetch_daily_adjusted (\<lambda>rq. Inr error_response) ''MSFT'' (run_av_config failing_env)
      = Inl (RuntimeError (AV_error ''MSFT'' (JStr ''Invalid API call.'')))
   \<and> fetch_daily_adjusted (\<lambda>rq. Inr throttled_response) ''MSFT'' (run_av_config failing_env)
      = Inl (RuntimeError (AV_throttled ''MSFT'' (JStr ''5 calls per minute'')))
   \<and> fetch_daily_adjusted (\<lambda>rq. Inr unexpected_response) ''MSFT'' (run_av_config failing_env)
      = Inl (RuntimeError (AV_unexpected ''MSFT'' [''Information'']))
   \<and> config_tickers example_config = Inr ([''AAPL''] @ ''MSFT'' # [''NVDA''])
   \<and> fst (main failing_env fresh_world) = Inl (RuntimeError (AV_error ''MSFT'' (JStr ''Invalid API call.'')))
   \<and> run_events failing_env fresh_world =
        [Request (params ''AAPL'' (run_av_config failing_env)), Sleep 13,
         Request (params ''MSFT'' (run_av_config failing_env))]
   \<and> prices_file (snd (main failing_env fresh_world)) = prices_file fresh_world
   \<and> writes (run_events failing_env fresh_world) = []"
proof -
  note T = fetch_failures_abort_the_run
  have 1: "fetch_daily_adjusted (\<lambda>rq. Inr error_response) ''MSFT'' (run_av_config failing_env)
      = Inl (RuntimeError (AV_error ''MSFT'' (JStr ''Invalid API call.'')))"
    using T [where get = "\<lambda>rq. Inr error_response" and j = error_response
        and m = "JStr ''Invalid API call.''" and symbol = "''MSFT''"
        and av = "run_av_config failing_env", THEN conjunct1]
    by (simp add: error_response_def)
  have 2: "fetch_daily_adjusted (\<lambda>rq. Inr throttled_response) ''MSFT'' (run_av_config failing_env)
      = Inl (RuntimeError (AV_throttled ''MSFT'' (JStr ''5 calls per minute'')))"
    using T [where get = "\<lambda>rq. Inr throttled_response"
        and j = throttled_response and n = "JStr ''5 calls per minute''" and symbol = "''MSFT''"
        and av = "run_av_config failing_env", THEN conjunct2, THEN conjunct1]
    by (simp add: throttled_response_def)
  have 3: "fetch_daily_adjusted (\<lambda>rq. Inr unexpected_response) ''MSFT'' (run_av_config failing_env)
      = Inl (RuntimeError (AV_unexpected ''MSFT'' [''Information'']))"
    using T [where get = "\<lambda>rq. Inr unexpected_response" and j = unexpected_response
        and symbol = "''MSFT''" and av = "run_av_config failing_env",
        THEN conjunct2, THEN conjunct2, THEN conjunct1]
    by (simp add: unexpected_response_def)
  have t: "config_tickers example_config = Inr ([''AAPL''] @ ''MSFT'' # [''NVDA''])"
    by (simp add: example_tickers)
  have l: "ticker_loop failing_env (run_av_config failing_env) (config_earliest_date example_config)
      1 [''AAPL''] (initial_state fresh_world) =
     Inr \<lparr>current_series = [''AAPL'' \<mapsto> example_series], updated_any = True,
          world = \<lparr>prices_file = None,
             trace = [Request (params ''AAPL'' (run_av_config failing_env)), Sleep 13]\<rparr>\<rparr>"
    by (simp only: example_ed loop_failing_prefix)
  have f: "fetch_daily_adjusted (http_get failing_env (Suc (length [''AAPL''])))
      ''MSFT'' (run_av_config failing_env) = Inl (RuntimeError (AV_error ''MSFT'' (JStr ''Invalid API call.'')))"
    by (simp add: fetch_failing)
  from T [THEN conjunct2, THEN conjunct2, THEN conjunct2, THEN conjunct1, rule_format,
      OF conjI [OF failing_env_sel(1) conjI [OF env_key_nonempty(2) conjI [OF t conjI [OF l f]]]]]
  have 4: "fst (main failing_env fresh_world) = Inl (RuntimeError (AV_error ''MSFT'' (JStr ''Invalid API call.'')))"
    and 5: "run_events failing_env fresh_world =
        [Request (params ''AAPL'' (run_av_config failing_env)), Sleep 13,
         Request (params ''MSFT'' (run_av_config failing_env))]"
    and 6: "prices_file (snd (main failing_env fresh_world)) = prices_file fresh_world"
    by (simp_all add: ticker_events_def)
  from T [THEN conjunct2, THEN conjunct2, THEN conjunct2, THEN conjunct2, rule_format, OF 4]
  have 7: "writes (run_events failing_env fresh_world) = []" by simp
  from 1 2 3 t 4 5 6 7 show ?thesis by blast
qed

text \<open>
  C4. When a run completes, it has written the dataset file if and only if, for at least
  one ticker, the merged series differed from the series the dataset held when that ticker
  was reached (the test \<^verbatim>\<open>merged != existing\<close>), or no dataset file existed before the
  run. If nothing is written the file is as before; otherwise the file holds the one
  document written.
\<close>

theorem dataset_written_iff_changed_or_first_run:
  assumes "config_file e = Some cfg" and "config_tickers cfg = Inr tickers"
    and "main e w = (Inr r, w1)"
  shows "(writes (run_events e w) \<noteq> []) =
      ((\<exists>k<length tickers. \<exists>sk.
           ticker_loop e (run_av_config e) (config_earliest_date cfg) 1 (take k tickers)
             (initial_state w) = Inr sk
           \<and> ticker_changed e (run_av_config e) (config_earliest_date cfg) sk (Suc k) (tickers ! k))
       \<or> prices_file w = None)
    \<and> (if writes (run_events e w) = [] then prices_file w1 = prices_file w
        else prices_file w1 = Some (last (writes (run_events e w)))
             \<and> length (writes (run_events e w)) = 1)"
proof -
  from main_success_shape [OF assms] obtain s where
    l: "ticker_loop e (run_av_config e) (config_earliest_date cfg) 1 tickers (initial_state w) = Inr s"
    and w1: "w1 = (if updated_any s \<or> prices_file w = None
               then dump_json (stamp e cfg (load_current w) s) (world s) else world s)"
    and ev: "run_events e w = concat (map (ticker_events (run_av_config e)) tickers)
           @ (if updated_any s \<or> prices_file w = None
              then [Write (map_dataset encoded (stamp e cfg (load_current w) s))] else [])"
    by blast
  from ticker_loop_updated [OF l]
  have u: "updated_any s = (\<exists>k<length tickers. \<exists>sk.
           ticker_loop e (run_av_config e) (config_earliest_date cfg) 1 (take k tickers)
             (initial_state w) = Inr sk
           \<and> ticker_changed e (run_av_config e) (config_earliest_date cfg) sk (Suc k) (tickers ! k))"
    by (simp add: initial_state_updated)
  from ticker_loop_world [OF l] have pf: "prices_file (world s) = prices_file w"
    by (simp add: initial_state_world)
  from ev have wr: "writes (run_events e w) =
      (if updated_any s \<or> prices_file w = None then [map_dataset encoded (stamp e cfg (load_current w) s)] else [])"
    by (simp add: writes_ticker_events)
  show ?thesis
  proof (cases "updated_any s \<or> prices_file w = None")
    case True
    with wr w1 u show ?thesis by (auto simp: dump_json_def)
  next
    case False
    with wr w1 u pf show ?thesis by auto
  qed
qed

theorem dataset_written_iff_changed_or_first_run_witness:
  "config_file example_env = Some example_config
   \<and> config_tickers example_config = Inr [''AAPL'', ''MSFT'', ''NVDA'']
   \<and> prices_file fresh_world = None
   \<and> writes (run_events example_env fresh_world) \<noteq> []
   \<and> length (writes (run_events example_env fresh_world)) = 1
   \<and> prices_file (snd (main example_env fresh_world))
        = Some (last (writes (run_events example_env fresh_world)))
   \<and> writes (run_events example_env settled_world) = []
   \<and> prices_file (snd (main example_env settled_world)) = prices_file settled_world
   \<and> ticker_changed nan_env (run_av_config nan_env) ''2025-07-01'' (initial_state nan_world)
        1 ''AAPL''
   \<and> writes (run_events nan_env nan_world) \<noteq> []
   \<and> writes (run_events nan_literal_env nan_world) = []
   \<and> prices_file (snd (main nan_literal_env nan_world)) = prices_file nan_world"
proof -
  have first: "prices_file fresh_world = None"
    by (simp add: fresh_world_def)
  have ch: "ticker_changed nan_env (run_av_config nan_env) ''2025-07-01'' (initial_state nan_world)
        1 ''AAPL''"
    by (rule ticker_changed_nan)
  have "\<exists>k<length [''AAPL'', ''MSFT'', ''NVDA'']. \<exists>sk.
      ticker_loop nan_env (run_av_config nan_env) (config_earliest_date example_config) 1
        (take k [''AAPL'', ''MSFT'', ''NVDA'']) (initial_state nan_world) = Inr sk
      \<and> ticker_changed nan_env (run_av_config nan_env) (config_earliest_date example_config) sk
          (Suc k) ([''AAPL'', ''MSFT'', ''NVDA''] ! k)"
    using ch by (intro exI [of _ 0] exI [of _ "initial_state nan_world"]) (simp add: example_ed)
  with dataset_written_iff_changed_or_first_run [OF nan_env_sel(1) example_tickers main_nan]
  have f: "writes (run_events nan_env nan_world) \<noteq> []"
    by blast
  have g: "writes (run_events nan_literal_env nan_world) = []"
    by (simp add: run_events_nan_literal)
  from dataset_written_iff_changed_or_first_run
    [OF nan_env_sel(3) example_tickers main_nan_literal] g
  have h: "prices_file (snd (main nan_literal_env nan_world)) = prices_file nan_world"
    by (simp add: main_nan_literal)
  from dataset_written_iff_changed_or_first_run
    [OF example_env_sel(1) example_tickers main_example] first
  have a: "writes (run_events example_env fresh_world) \<noteq> []"
    and b: "length (writes (run_events example_env fresh_world)) = 1"
    and c: "prices_file (snd (main example_env fresh_world))
        = Some (last (writes (run_events example_env fresh_world)))"
    by (auto simp: main_example split: if_splits)
  have d: "writes (run_events example_env settled_world) = []"
    by (simp add: run_events_settled)
  from dataset_written_iff_changed_or_first_run
    [OF example_env_sel(1) example_tickers main_settled] d
  have e: "prices_file (snd (main example_env settled_world)) = prices_file settled_world"
    by (simp add: main_settled)
  from example_env_sel(1) example_tickers first a b c d e ch f g h show ?thesis by blast
qed

text \<open>
  C7. Every document that a run writes carries the time read in this run as
  \<^verbatim>\<open>generated_utc\<close>, and as \<^verbatim>\<open>provider\<close>, \<^verbatim>\<open>endpoint\<close>, \<^verbatim>\<open>field\<close> and \<^verbatim>\<open>earliest_date\<close>
  the values of the configuration, or their fixed defaults where the configuration has
  none, whether or not any series changed.
\<close>

theorem written_dataset_is_stamped:
  assumes "config_file e = Some cfg" and "d \<in> set (writes (run_events e w))"
  shows "ds_generated_utc d = Some (utc_now e)
     \<and> ds_provider d = Some (case cfg_data_source cfg of None \<Rightarrow> ''Alpha Vantage''
          | Some src \<Rightarrow> (case src_provider src of None \<Rightarrow> ''Alpha Vantage'' | Some v \<Rightarrow> v))
     \<and> ds_endpoint d = Some (case cfg_data_source cfg of None \<Rightarrow> ''TIME_SERIES_DAILY_ADJUSTED''
          | Some src \<Rightarrow> (case src_endpoint src of None \<Rightarrow> ''TIME_SERIES_DAILY_ADJUSTED'' | Some v \<Rightarrow> v))
     \<and> ds_field d = Some (case cfg_data_source cfg of None \<Rightarrow> ''5. adjusted close''
          | Some src \<Rightarrow> (case src_field src of None \<Rightarrow> ''5. adjusted close'' | Some v \<Rightarrow> v))
     \<and> ds_earliest_date d = Some (case cfg_data_window cfg of None \<Rightarrow> ''2025-07-01''
          | Some dw \<Rightarrow> (case dw_earliest_date dw of None \<Rightarrow> ''2025-07-01'' | Some v \<Rightarrow> v))"
proof (cases "main e w")
  case (Pair res w1)
  show ?thesis
  proof (cases res)
    case (Inl x)
    with Pair main_failure_writes_nothing [of e w x w1] assms(2) show ?thesis by simp
  next
    case (Inr r)
    with Pair have m: "main e w = (Inr r, w1)" by simp
    from main_returns [OF m] assms(1) obtain tickers where
      t: "config_tickers cfg = Inr tickers" by auto
    from main_success_shape [OF assms(1) t m] obtain s where
      ev: "run_events e w = concat (map (ticker_events (run_av_config e)) tickers)
           @ (if updated_any s \<or> prices_file w = None
              then [Write (map_dataset encoded (stamp e cfg (load_current w) s))] else [])"
      by blast
    with assms(2) have "d = map_dataset encoded (stamp e cfg (load_current w) s)"
      by (auto simp: writes_ticker_events split: if_splits)
    then show ?thesis
      by (simp add: stamp_def map_dataset_def source_or_def config_earliest_date_def)
  qed
qed

theorem written_dataset_is_stamped_witness:
  "config_file quiet_env = Some example_config
   \<and> example_written\<lparr>ds_series := Some Map.empty\<rparr> \<in> set (writes (run_events quiet_env fresh_world))
   \<and> ds_generated_utc (example_written\<lparr>ds_series := Some Map.empty\<rparr>) = Some (utc_now quiet_env)
   \<and> ds_provider (example_written\<lparr>ds_series := Some Map.empty\<rparr>) = Some ''Alpha Vantage''
   \<and> ds_endpoint (example_written\<lparr>ds_series := Some Map.empty\<rparr>) = Some ''TIME_SERIES_DAILY_ADJUSTED''
   \<and> ds_field (example_written\<lparr>ds_series := Some Map.empty\<rparr>) = Some ''5. adjusted close''
   \<and> ds_earliest_date (example_written\<lparr>ds_series := Some Map.empty\<rparr>) = Some ''2025-07-01''"
proof -
  have w: "example_written\<lparr>ds_series := Some Map.empty\<rparr> \<in> set (writes (run_events quiet_env fresh_world))"
    by (simp add: run_events_quiet)
  from written_dataset_is_stamped [OF quiet_env_sel(1) w] quiet_env_sel(1) w
  show ?thesis by (simp add: example_config_def)
qed

text \<open>
  C8. A run over n configured tickers that completes makes exactly n pauses of 13
  seconds: its events are, for each ticker in order, the request and then the pause, also
  after the last ticker, followed by nothing but the possible write.
\<close>

theorem one_pause_after_each_ticker:
  assumes "config_file e = Some cfg" and "config_tickers cfg = Inr tickers"
    and "main e w = (Inr r, w1)"
  shows "pauses (run_events e w) = replicate (length tickers) 13
     \<and> (\<exists>tail. run_events e w =
            concat (map (\<lambda>symb. [Request (params symb (run_av_config e)), Sleep 13]) tickers) @ tail
          \<and> pauses tail = [] \<and> requests tail = [])"
proof -
  from main_success_shape [OF assms] obtain s where
    ev: "run_events e w = concat (map (ticker_events (run_av_config e)) tickers)
           @ (if updated_any s \<or> prices_file w = None
              then [Write (map_dataset encoded (stamp e cfg (load_current w) s))] else [])"
    by blast
  have te: "ticker_events (run_av_config e) = (\<lambda>symb. [Request (params symb (run_av_config e)), Sleep 13])"
    by (simp add: ticker_events_def fun_eq_iff)
  from ev have "pauses (run_events e w) = replicate (length tickers) 13"
    by (simp add: pauses_ticker_events)
  moreover from ev te have "\<exists>tail. run_events e w =
            concat (map (\<lambda>symb. [Request (params symb (run_av_config e)), Sleep 13]) tickers) @ tail
          \<and> pauses tail = [] \<and> requests tail = []"
    by (intro exI [of _ "if updated_any s \<or> prices_file w = None
              then [Write (map_dataset encoded (stamp e cfg (load_current w) s))] else []"]) simp
  ultimately show ?thesis by blast
qed

theorem one_pause_after_each_ticker_witness:
  "config_file example_env = Some example_config
   \<and> config_tickers example_config = Inr [''AAPL'', ''MSFT'', ''NVDA'']
   \<and> fst (main example_env fresh_world) = Inr 0
   \<and> pauses (run_events example_env fresh_world) = [13, 13, 13]
   \<and> (\<exists>tail. run_events example_env fresh_world =
            concat (map (\<lambda>symb. [Request (params symb (run_av_config example_env)), Sleep 13])
              [''AAPL'', ''MSFT'', ''NVDA'']) @ tail
          \<and> pauses tail = [] \<and> requests tail = [])"
proof -
  from one_pause_after_each_ticker [OF example_env_sel(1) example_tickers main_example]
  have "pauses (run_events example_env fresh_world) = [13, 13, 13]"
    and "\<exists>tail. run_events example_env fresh_world =
            concat (map (\<lambda>symb. [Request (params symb (run_av_config example_env)), Sleep 13])
              [''AAPL'', ''MSFT'', ''NVDA'']) @ tail
          \<and> pauses tail = [] \<and> requests tail = []"
    by (simp_all add: numeral_3_eq_3)
  with example_env_sel(1) example_tickers main_example show ?thesis by simp
qed

text \<open>
  C9. When the configuration has no ticker list, or an empty one, the run fails (for the
  missing credential if there is none, else for the missing tickers) and leaves the world
  as it was: no request is made and the dataset file is neither written nor changed.
\<close>

theorem no_tickers_aborts_before_any_request:
  assumes "config_file e = Some cfg" and "cfg_tickers cfg = None \<or> cfg_tickers cfg = Some []"
  shows "(main e w = (Inl (RuntimeError Missing_api_key), w)
          \<or> main e w = (Inl (RuntimeError No_tickers_found), w))
     \<and> run_events e w = []"
proof -
  from assms(2) have "config_tickers cfg = Inr []"
    by (auto simp: config_tickers_def)
  with assms(1) have "main e w = (Inl (RuntimeError Missing_api_key), w)
          \<or> main e w = (Inl (RuntimeError No_tickers_found), w)"
    by (simp add: main_def)
  then show ?thesis by (auto simp: run_events_def)
qed

theorem no_tickers_aborts_before_any_request_witness:
  "config_file no_tickers_env = Some (example_config\<lparr>cfg_tickers := Some []\<rparr>)
   \<and> cfg_tickers (example_config\<lparr>cfg_tickers := Some []\<rparr>) = Some []
   \<and> main no_tickers_env fresh_world = (Inl (RuntimeError No_tickers_found), fresh_world)
   \<and> run_events no_tickers_env fresh_world = []"
proof -
  have c: "config_file no_tickers_env = Some (example_config\<lparr>cfg_tickers := Some []\<rparr>)"
    by (simp add: no_tickers_env_def)
  have t: "cfg_tickers (example_config\<lparr>cfg_tickers := Some []\<rparr>) = None
      \<or> cfg_tickers (example_config\<lparr>cfg_tickers := Some []\<rparr>) = Some []"
    by simp
  have k: "env_api_key no_tickers_env = ''demo''"
    by (simp add: env_api_key_def no_tickers_env_def example_env_sel strip_demo)
  have m: "main no_tickers_env fresh_world \<noteq> (Inl (RuntimeError Missing_api_key), fresh_world)"
    by (simp add: main_def c k config_tickers_def)
  from no_tickers_aborts_before_any_request [OF c t, of fresh_world] m c
  show ?thesis by simp
qed

text \<open>
  C10. When the merged series of a ticker equals its existing series, processing the
  ticker leaves the series mapping of the dataset (and the changed flag) as it was. In
  particular a ticker that the dataset lacks and whose incoming series is empty gets no
  entry; and on a first run, which writes the file, the written document has no key for a
  ticker all of whose extractions were empty. A key that processing a ticker creates is
  the key of that ticker, and its series is not empty.
\<close>

theorem unchanged_ticker_leaves_series_untouched:
  "(incoming_series e av ed i symb = Inr incoming
      \<and> merge_series (existing_series s symb) incoming = existing_series s symb \<longrightarrow>
    (\<exists>s1. process_ticker e av ed i symb s = Inr s1
        \<and> current_series s1 = current_series s \<and> updated_any s1 = updated_any s))
   \<and> (incoming_series e av ed i symb = Inr Map.empty \<and> current_series s symb = None \<longrightarrow>
    (\<exists>s1. process_ticker e av ed i symb s = Inr s1
        \<and> current_series s1 = current_series s \<and> current_series s1 symb = None))
   \<and> (config_file e = Some cfg \<and> config_tickers cfg = Inr tickers \<and> main e w = (Inr r, w1)
        \<and> prices_file w = None
        \<and> (\<forall>k<length tickers. tickers ! k = symb \<longrightarrow>
              incoming_series e (run_av_config e) (config_earliest_date cfg) (Suc k) symb
                = Inr Map.empty) \<longrightarrow>
    (\<exists>d cs. writes (run_events e w) = [d] \<and> prices_file w1 = Some d
        \<and> ds_series d = Some cs \<and> cs symb = None))
   \<and> (process_ticker e av ed i symb s = Inr s2 \<and> current_series s t = None
        \<and> current_series s2 t = Some m \<longrightarrow>
    t = symb \<and> m \<noteq> Map.empty)"
proof (intro conjI impI)
  assume "incoming_series e av ed i symb = Inr incoming
      \<and> merge_series (existing_series s symb) incoming = existing_series s symb"
  then show "\<exists>s1. process_ticker e av ed i symb s = Inr s1
        \<and> current_series s1 = current_series s \<and> updated_any s1 = updated_any s"
    by (intro process_ticker_unchanged) auto
next
  assume a: "incoming_series e av ed i symb = Inr Map.empty \<and> current_series s symb = None"
  then have "merge_series (existing_series s symb) Map.empty = existing_series s symb"
    by (simp add: existing_series_def merge_series_empty)
  with a process_ticker_unchanged [of e av ed i symb Map.empty s]
  show "\<exists>s1. process_ticker e av ed i symb s = Inr s1
        \<and> current_series s1 = current_series s \<and> current_series s1 symb = None"
    by auto
next
  assume a: "config_file e = Some cfg \<and> config_tickers cfg = Inr tickers \<and> main e w = (Inr r, w1)
        \<and> prices_file w = None
        \<and> (\<forall>k<length tickers. tickers ! k = symb \<longrightarrow>
              incoming_series e (run_av_config e) (config_earliest_date cfg) (Suc k) symb
                = Inr Map.empty)"
  then have cfg: "config_file e = Some cfg" and t: "config_tickers cfg = Inr tickers"
    and m: "main e w = (Inr r, w1)" and first: "prices_file w = None"
    and inc: "\<forall>k<length tickers. tickers ! k = symb \<longrightarrow>
              incoming_series e (run_av_config e) (config_earliest_date cfg) (1 + k) symb
                = Inr Map.empty"
    by simp_all
  from main_success_shape [OF cfg t m] obtain s where
    l: "ticker_loop e (run_av_config e) (config_earliest_date cfg) 1 tickers (initial_state w) = Inr s"
    and w1: "w1 = (if updated_any s \<or> prices_file w = None
               then dump_json (stamp e cfg (load_current w) s) (world s) else world s)"
    and ev: "run_events e w = concat (map (ticker_events (run_av_config e)) tickers)
           @ (if updated_any s \<or> prices_file w = None
              then [Write (map_dataset encoded (stamp e cfg (load_current w) s))] else [])"
    by blast
  from first have "current_series (initial_state w) symb = None"
    by (simp add: initial_state_def load_current_def)
  from ticker_loop_absent [OF l this inc] have none: "current_series s symb = None" .
  from ev first have "writes (run_events e w) = [map_dataset encoded (stamp e cfg (load_current w) s)]"
    by (simp add: writes_ticker_events)
  moreover from w1 first have "prices_file w1 = Some (map_dataset encoded (stamp e cfg (load_current w) s))"
    by (simp add: dump_json_def)
  moreover have "ds_series (map_dataset encoded (stamp e cfg (load_current w) s))
      = Some (map_option (\<lambda>sr. map_option encoded \<circ> sr) \<circ> current_series s)"
    by (simp add: stamp_def map_dataset_def)
  moreover from none
  have "(map_option (\<lambda>sr. map_option encoded \<circ> sr) \<circ> current_series s) symb = None"
    by simp
  ultimately show "\<exists>d cs. writes (run_events e w) = [d] \<and> prices_file w1 = Some d
        \<and> ds_series d = Some cs \<and> cs symb = None"
    by blast
next
  assume a: "process_ticker e av ed i symb s = Inr s2 \<and> current_series s t = None
        \<and> current_series s2 t = Some m"
  then have "t = symb \<and> m \<noteq> Map.empty"
    by (intro process_ticker_new_key [of e av ed i symb s s2 t m]) auto
  then show "t = symb" and "m \<noteq> Map.empty" by simp_all
qed

theorem unchanged_ticker_leaves_series_untouched_witness:
  "incoming_series example_env (run_av_config example_env) ''2025-07-01'' 1 ''AAPL'' = Inr example_series
   \<and> merge_series (existing_series (initial_state settled_world) ''AAPL'') example_series
        = existing_series (initial_state settled_world) ''AAPL''
   \<and> (\<exists>s1. process_ticker example_env (run_av_config example_env) ''2025-07-01'' 1 ''AAPL''
              (initial_state settled_world) = Inr s1
        \<and> current_series s1 = current_series (initial_state settled_world)
        \<and> updated_any s1 = updated_any (initial_state settled_world))
   \<and> current_series (initial_state fresh_world) ''MSFT'' = None
   \<and> (\<exists>s1. process_ticker example_env (run_av_config example_env) ''2025-07-01'' 2 ''MSFT''
              (initial_state fresh_world) = Inr s1
        \<and> current_series s1 = current_series (initial_state fresh_world)
        \<and> current_series s1 ''MSFT'' = None)
   \<and> prices_file fresh_world = None
   \<and> (\<exists>d cs. writes (run_events example_env fresh_world) = [d]
        \<and> prices_file (snd (main example_env fresh_world)) = Some d
        \<and> ds_series d = Some cs \<and> cs ''MSFT'' = None \<and> cs ''AAPL'' = Some example_series_json)
   \<and> current_series (initial_state fresh_world) ''AAPL'' = None
   \<and> example_series \<noteq> Map.empty
   \<and> incoming_series nan_literal_env (run_av_config nan_literal_env) ''2025-07-01'' 1 ''AAPL''
        = Inr [''2025-07-01'' \<mapsto> NaN Decoder_NaN]
   \<and> (\<exists>s1. process_ticker nan_literal_env (run_av_config nan_literal_env) ''2025-07-01'' 1
              ''AAPL'' (initial_state nan_world) = Inr s1
        \<and> current_series s1 = current_series (initial_state nan_world)
        \<and> updated_any s1 = updated_any (initial_state nan_world))
   \<and> incoming_series nan_env (run_av_config nan_env) ''2025-07-01'' 1 ''AAPL''
        = Inr [''2025-07-01'' \<mapsto> NaN (Made 1 ''2025-07-01'')]
   \<and> merge_series (existing_series (initial_state nan_world) ''AAPL'')
          [''2025-07-01'' \<mapsto> NaN (Made 1 ''2025-07-01'')]
        \<noteq> existing_series (initial_state nan_world) ''AAPL''"
proof -
  note T = unchanged_ticker_leaves_series_untouched
  have i5: "incoming_series nan_literal_env (run_av_config nan_literal_env) ''2025-07-01'' 1 ''AAPL''
        = Inr [''2025-07-01'' \<mapsto> NaN Decoder_NaN]"
    by (simp add: incoming_nan_literal)
  have m5: "merge_series (existing_series (initial_state nan_world) ''AAPL'')
        [''2025-07-01'' \<mapsto> NaN Decoder_NaN] = existing_series (initial_state nan_world) ''AAPL''"
    by (simp add: initial_nan existing_series_def merge_series_map_add)
  note 5 = T [THEN conjunct1, rule_format, OF conjI [OF i5 m5]]
  have i6: "incoming_series nan_env (run_av_config nan_env) ''2025-07-01'' 1 ''AAPL''
        = Inr [''2025-07-01'' \<mapsto> NaN (Made 1 ''2025-07-01'')]"
    by (simp add: incoming_nan)
  have m6: "merge_series (existing_series (initial_state nan_world) ''AAPL'')
          [''2025-07-01'' \<mapsto> NaN (Made 1 ''2025-07-01'')]
        \<noteq> existing_series (initial_state nan_world) ''AAPL''"
    by (simp add: initial_nan existing_series_def merge_series_map_add singleton_map_eq)
  have i1: "incoming_series example_env (run_av_config example_env) ''2025-07-01'' 1 ''AAPL''
      = Inr example_series"
    by (simp add: incoming_example)
  have m1: "merge_series (existing_series (initial_state settled_world) ''AAPL'') example_series
        = existing_series (initial_state settled_world) ''AAPL''"
    by (simp add: initial_settled existing_series_def merge_series_map_add map_add_same)
  note 1 = T [THEN conjunct1, rule_format, OF conjI [OF i1 m1]]
  have i2: "incoming_series example_env (run_av_config example_env) ''2025-07-01'' 2 ''MSFT''
      = Inr Map.empty"
    by (simp add: incoming_example)
  have a2: "current_series (initial_state fresh_world) ''MSFT'' = None"
    by (simp add: initial_fresh)
  note 2 = T [THEN conjunct2, THEN conjunct1, rule_format, OF conjI [OF i2 a2]]
  have a4: "current_series (initial_state fresh_world) ''AAPL'' = None"
    by (simp add: initial_fresh)
  have p4: "process_ticker example_env (run_av_config example_env) ''2025-07-01'' 1 ''AAPL''
      (initial_state fresh_world) =
     Inr \<lparr>current_series = [''AAPL'' \<mapsto> example_series], updated_any = True,
          world = \<lparr>prices_file = None,
            trace = [Request (params ''AAPL'' (run_av_config example_env)), Sleep 13]\<rparr>\<rparr>"
    by (rule process_example_first)
  have c4: "current_series \<lparr>current_series = [''AAPL'' \<mapsto> example_series], updated_any = True,
          world = \<lparr>prices_file = None,
            trace = [Request (params ''AAPL'' (run_av_config example_env)), Sleep 13]\<rparr>\<rparr>
        ''AAPL'' = Some example_series"
    by simp
  from T [THEN conjunct2, THEN conjunct2, THEN conjunct2, rule_format,
      OF conjI [OF p4 conjI [OF a4 c4]]]
  have 4: "example_series \<noteq> Map.empty" by simp
  have first: "prices_file fresh_world = None"
    by (simp add: fresh_world_def)
  have i3: "\<forall>k<length [''AAPL'', ''MSFT'', ''NVDA'']. [''AAPL'', ''MSFT'', ''NVDA''] ! k = ''MSFT'' \<longrightarrow>
      incoming_series example_env (run_av_config example_env) (config_earliest_date example_config)
        (Suc k) ''MSFT'' = Inr Map.empty"
    by (simp add: example_ed incoming_example)
  from T [THEN conjunct2, THEN conjunct2, THEN conjunct1, rule_format,
      OF conjI [OF example_env_sel(1) conjI [OF example_tickers conjI [OF main_example
        conjI [OF first i3]]]]]
  have 3: "\<exists>d cs. writes (run_events example_env fresh_world) = [d]
        \<and> prices_file (snd (main example_env fresh_world)) = Some d
        \<and> ds_series d = Some cs \<and> cs ''MSFT'' = None \<and> cs ''AAPL'' = Some example_series_json"
    by (auto simp: run_events_example main_example example_written_def)
  from i1 m1 1 a2 2 first 3 a4 4 i5 5 i6 m6 show ?thesis by blast
qed

end
